theory Spec2Isabelle
  imports Main "HOL-Library.Char_ord" "HOL-Library.List_Lexorder"
begin

section \<open>Payloads, errors and the Data Source port\<close>

text \<open>
  The handlers of \<^verbatim>\<open>handlers.py\<close> work on decoded JSON. A Python \<^verbatim>\<open>dict\<close> keeps its
  insertion order, and the handlers iterate over it, so an object is an association list
  in insertion order; the keys of a dict are distinct, and a lookup reads the first
  binding of a key. A float is never computed with in the handlers modelled here; it is
  carried by its decimal text. Strings are lists of characters (code points below 256);
  \<^verbatim>\<open>len\<close> is \<open>length\<close>.
\<close>

datatype json =
    JNull
  | JBool bool
  | JInt int
  | JFloat string
  | JStr string
  | JList "json list"
  | JObj "(string \<times> json) list"

text \<open>
  The exceptions a handler can end with: the \<^verbatim>\<open>ValueError\<close> it raises itself (with its
  message), the \<^verbatim>\<open>AttributeError\<close>, \<^verbatim>\<open>TypeError\<close> and \<^verbatim>\<open>KeyError\<close> Python raises when a
  payload does not have the shape the handler reaches into, and a failure of the Data
  Source, which no handler catches.
\<close>

datatype error =
    ValueError string
  | AttributeError
  | TypeError
  | KeyError string
  | UpstreamFailure string

text \<open>
  Every upstream operation is a function imported from \<^verbatim>\<open>api_helpers\<close> (lines 3-108), which
  is the Data Source port and not part of the handlers. A call names the operation and
  carries its positional and keyword arguments as the handler passes them.
\<close>

datatype operation =
    fetch_intraday
  | fetch_time_series_daily
  | fetch_time_series_daily_adjusted
  | fetch_time_series_weekly
  | fetch_time_series_weekly_adjusted
  | fetch_time_series_monthly
  | fetch_time_series_monthly_adjusted
  | fetch_income_statement
  | fetch_balance_sheet
  | fetch_cash_flow
  | fetch_sma
  | fetch_ema
  | fetch_wma
  | fetch_macd
  | fetch_rsi
  | fetch_stoch
  | fetch_cci
  | fetch_mfi
  | fetch_bbands
  | fetch_atr
  | fetch_sar
  | fetch_obv
  | fetch_ad
  | fetch_adosc
  | fetch_analytics_fixed_window
  | fetch_analytics_sliding_window
  | fetch_company_overview
  | fetch_etf_profile
  | fetch_earnings_calendar
  | fetch_ipo_calendar
  | fetch_listing_status
  | fetch_exchange_rate
  | fetch_digital_currency_daily

record call =
  callee :: operation
  args :: "json list"
  kwargs :: "(string \<times> json) list"

text \<open>
  The Data Source answers a call with a payload or fails. A handler run yields the calls
  it issued, in order, and how it ended: \<open>Inl\<close> an exception, \<open>Inr\<close> the value returned.
  An exception ends the run, so the calls after it are never issued.
\<close>

type_synonym data_source = "call \<Rightarrow> error + json"

type_synonym 'a io = "call list \<times> (error + 'a)"

definition await :: "data_source \<Rightarrow> call \<Rightarrow> json io" where
  "await ds c = ([c], ds c)"

definition raise :: "error \<Rightarrow> 'a io" where
  "raise e = ([], Inl e)"

definition lift :: "error + 'a \<Rightarrow> 'a io" where
  "lift r = ([], r)"

definition bind_io :: "'a io \<Rightarrow> ('a \<Rightarrow> 'b io) \<Rightarrow> 'b io" where
  "bind_io m f =
     (case m of
        (calls, Inl e) \<Rightarrow> (calls, Inl e)
      | (calls, Inr x) \<Rightarrow> (case f x of (calls', r) \<Rightarrow> (calls @ calls', r)))"

definition bind_err :: "error + 'a \<Rightarrow> ('a \<Rightarrow> error + 'b) \<Rightarrow> error + 'b" where
  "bind_err m f = (case m of Inl e \<Rightarrow> Inl e | Inr x \<Rightarrow> f x)"

subsection \<open>Python's string and dict operations\<close>

text \<open>
  \<^verbatim>\<open>sub in s\<close> on strings; \<^verbatim>\<open>s.lower()\<close>, on the code points below 256 (the capital
  letters of ASCII and of Latin-1 have a lower-case form there); \<^verbatim>\<open>d.get(k)\<close>, \<^verbatim>\<open>k in d\<close>
  and \<^verbatim>\<open>d[k] = v\<close> on a dict.
\<close>

fun str_contains :: "string \<Rightarrow> string \<Rightarrow> bool" where
  "str_contains [] sub = (sub = [])"
| "str_contains (c # cs) sub = (take (length sub) (c # cs) = sub \<or> str_contains cs sub)"

definition upper_chars :: "char list" where
  "upper_chars = ''ABCDEFGHIJKLMNOPQRSTUVWXYZ'' @
     [CHR 0xC0, CHR 0xC1, CHR 0xC2, CHR 0xC3, CHR 0xC4, CHR 0xC5, CHR 0xC6, CHR 0xC7,
      CHR 0xC8, CHR 0xC9, CHR 0xCA, CHR 0xCB, CHR 0xCC, CHR 0xCD, CHR 0xCE, CHR 0xCF,
      CHR 0xD0, CHR 0xD1, CHR 0xD2, CHR 0xD3, CHR 0xD4, CHR 0xD5, CHR 0xD6, CHR 0xD8,
      CHR 0xD9, CHR 0xDA, CHR 0xDB, CHR 0xDC, CHR 0xDD, CHR 0xDE]"

definition lower_chars :: "char list" where
  "lower_chars = ''abcdefghijklmnopqrstuvwxyz'' @
     [CHR 0xE0, CHR 0xE1, CHR 0xE2, CHR 0xE3, CHR 0xE4, CHR 0xE5, CHR 0xE6, CHR 0xE7,
      CHR 0xE8, CHR 0xE9, CHR 0xEA, CHR 0xEB, CHR 0xEC, CHR 0xED, CHR 0xEE, CHR 0xEF,
      CHR 0xF0, CHR 0xF1, CHR 0xF2, CHR 0xF3, CHR 0xF4, CHR 0xF5, CHR 0xF6, CHR 0xF8,
      CHR 0xF9, CHR 0xFA, CHR 0xFB, CHR 0xFC, CHR 0xFD, CHR 0xFE]"

definition lower_char :: "char \<Rightarrow> char" where
  "lower_char c = (case map_of (zip upper_chars lower_chars) c of None \<Rightarrow> c | Some l \<Rightarrow> l)"

definition lower :: "string \<Rightarrow> string" where
  "lower s = map lower_char s"

definition has_key :: "(string \<times> 'v) list \<Rightarrow> string \<Rightarrow> bool" where
  "has_key d k = (k \<in> set (map fst d))"

definition dict_get :: "(string \<times> 'v) list \<Rightarrow> string \<Rightarrow> 'v \<Rightarrow> 'v" where
  "dict_get d k dflt = (case map_of d k of None \<Rightarrow> dflt | Some v \<Rightarrow> v)"

fun dict_set :: "(string \<times> json) list \<Rightarrow> string \<Rightarrow> json \<Rightarrow> (string \<times> json) list" where
  "dict_set [] k v = [(k, v)]"
| "dict_set ((k', v') # d) k v = (if k' = k then (k, v) # d else (k', v') # dict_set d k v)"

definition opt_str :: "string option \<Rightarrow> json" where
  "opt_str s = (case s of None \<Rightarrow> JNull | Some x \<Rightarrow> JStr x)"

text \<open>\<^verbatim>\<open>x.get(k)\<close> on a payload value: only a dict has the attribute.\<close>

definition py_get :: "json \<Rightarrow> string \<Rightarrow> error + json" where
  "py_get x k = (case x of JObj d \<Rightarrow> Inr (dict_get d k JNull) | _ \<Rightarrow> Inl AttributeError)"

section \<open>Request routers\<close>

text \<open>\<^verbatim>\<open>fetch_time_series\<close>, lines 111-167. The extra \<^verbatim>\<open>**kwargs\<close> are accepted and never read.\<close>

definition intraday_intervals :: "string list" where
  "intraday_intervals = [''1min'', ''5min'', ''15min'', ''30min'', ''60min'']"

definition function_map :: "((string \<times> bool) \<times> operation) list" where
  "function_map =
     [((''daily'', False), fetch_time_series_daily),
      ((''daily'', True), fetch_time_series_daily_adjusted),
      ((''weekly'', False), fetch_time_series_weekly),
      ((''weekly'', True), fetch_time_series_weekly_adjusted),
      ((''monthly'', False), fetch_time_series_monthly),
      ((''monthly'', True), fetch_time_series_monthly_adjusted)]"

definition fetch_time_series ::
  "data_source \<Rightarrow> string \<Rightarrow> string \<Rightarrow> bool \<Rightarrow> string \<Rightarrow> string option \<Rightarrow> bool \<Rightarrow> json io" where
  "fetch_time_series ds symbol interval adjusted outputsize month extended_hours =
     (if interval \<in> set intraday_intervals then
        await ds \<lparr>callee = fetch_intraday, args = [],
          kwargs = [(''symbol'', JStr symbol), (''interval'', JStr interval),
                    (''datatype'', JStr ''json''), (''adjusted'', JBool adjusted),
                    (''extended_hours'', JBool extended_hours),
                    (''outputsize'', JStr outputsize), (''month'', opt_str month)]\<rparr>
      else
        (case map_of function_map (interval, adjusted) of
           None \<Rightarrow> raise (ValueError (''Unsupported interval: '' @ interval))
         | Some func \<Rightarrow>
             if interval = ''daily'' then
               await ds \<lparr>callee = func, args = [],
                 kwargs = [(''symbol'', JStr symbol), (''datatype'', JStr ''json''),
                           (''outputsize'', JStr outputsize)]\<rparr>
             else
               await ds \<lparr>callee = func, args = [],
                 kwargs = [(''symbol'', JStr symbol), (''datatype'', JStr ''json'')]\<rparr>))"

text \<open>\<^verbatim>\<open>get_financial_statements\<close>, lines 542-574.\<close>

definition get_financial_statements :: "data_source \<Rightarrow> string \<Rightarrow> string \<Rightarrow> json io" where
  "get_financial_statements ds symbol statement_type0 =
     (let statement_type = lower statement_type0 in
      if statement_type = ''all'' then
        bind_io (await ds \<lparr>callee = fetch_income_statement, args = [JStr symbol], kwargs = []\<rparr>)
          (\<lambda>income.
        bind_io (await ds \<lparr>callee = fetch_balance_sheet, args = [JStr symbol], kwargs = []\<rparr>)
          (\<lambda>balance.
        bind_io (await ds \<lparr>callee = fetch_cash_flow, args = [JStr symbol], kwargs = []\<rparr>)
          (\<lambda>cash.
        lift (Inr (JObj [(''symbol'', JStr symbol), (''income_statement'', income),
                         (''balance_sheet'', balance), (''cash_flow'', cash)])))))
      else if statement_type = ''income'' then
        await ds \<lparr>callee = fetch_income_statement, args = [JStr symbol], kwargs = []\<rparr>
      else if statement_type = ''balance'' then
        await ds \<lparr>callee = fetch_balance_sheet, args = [JStr symbol], kwargs = []\<rparr>
      else if statement_type = ''cash_flow'' then
        await ds \<lparr>callee = fetch_cash_flow, args = [JStr symbol], kwargs = []\<rparr>
      else
        raise (ValueError (''Unsupported statement type: '' @ statement_type @
          ''. Supported types: '' @ [CHR 0x27] @ ''income'' @ [CHR 0x27] @ '', '' @
          [CHR 0x27] @ ''balance'' @ [CHR 0x27] @ '', '' @
          [CHR 0x27] @ ''cash_flow'' @ [CHR 0x27] @ '', '' @
          [CHR 0x27] @ ''all'' @ [CHR 0x27])))"

text \<open>\<^verbatim>\<open>get_symbol_overview\<close>, lines 745-761.\<close>

definition get_symbol_overview :: "data_source \<Rightarrow> string \<Rightarrow> string \<Rightarrow> json io" where
  "get_symbol_overview ds symbol profile_type =
     (if profile_type = ''company'' then
        await ds \<lparr>callee = fetch_company_overview, args = [JStr symbol], kwargs = []\<rparr>
      else if profile_type = ''etf'' then
        await ds \<lparr>callee = fetch_etf_profile, args = [JStr symbol], kwargs = []\<rparr>
      else raise (ValueError (''Unsupported profile type: '' @ profile_type)))"

text \<open>
  \<^verbatim>\<open>get_stock_time_series\<close>, lines 1620-1687. The keyword arguments it forwards are the
  ones \<^verbatim>\<open>fetch_time_series\<close> reads. \<^verbatim>\<open>clean_stock_series\<close> is its clean-up of the payload
  (lines 1627-1687): \<^verbatim>\<open>x or y\<close> is \<open>py_or\<close>, the comprehensions that drop \<^verbatim>\<open>None\<close> are
  filters, and \<^verbatim>\<open>sorted\<close> orders the dates as strings.
\<close>

fun truthy :: "json \<Rightarrow> bool" where
  "truthy JNull = False"
| "truthy (JBool b) = b"
| "truthy (JInt i) = (i \<noteq> 0)"
| "truthy (JFloat f) = (f \<notin> set [''0.0'', ''-0.0''])"
| "truthy (JStr s) = (s \<noteq> [])"
| "truthy (JList l) = (l \<noteq> [])"
| "truthy (JObj d) = (d \<noteq> [])"

definition py_or :: "json \<Rightarrow> json \<Rightarrow> json" where
  "py_or a b = (if truthy a then a else b)"

definition drop_none :: "(string \<times> json) list \<Rightarrow> (string \<times> json) list" where
  "drop_none d = filter (\<lambda>(k, v). v \<noteq> JNull) d"

definition dict_update :: "(string \<times> json) list \<Rightarrow> (string \<times> json) list \<Rightarrow> (string \<times> json) list" where
  "dict_update d e = foldl (\<lambda>acc (k, v). dict_set acc k v) d e"

fun map_err :: "('a \<Rightarrow> error + 'b) \<Rightarrow> 'a list \<Rightarrow> error + 'b list" where
  "map_err f [] = Inr []"
| "map_err f (x # xs) = bind_err (f x) (\<lambda>y. bind_err (map_err f xs) (\<lambda>ys. Inr (y # ys)))"

definition clean_meta :: "string \<Rightarrow> json \<Rightarrow> error + json" where
  "clean_meta interval meta =
     (case meta of
        JObj m \<Rightarrow>
          Inr (JObj (drop_none
            [(''information'', dict_get m ''1. Information'' JNull),
             (''symbol'', dict_get m ''2. Symbol'' JNull),
             (''last_refreshed'', dict_get m ''3. Last Refreshed'' JNull),
             (''output_size'', dict_get m ''4. Output Size'' JNull),
             (''time_zone'', dict_get m ''5. Time Zone'' JNull),
             (''interval'', py_or (dict_get m ''4. Interval'' JNull) (JStr interval))]))
      | _ \<Rightarrow> Inl AttributeError)"

definition clean_bar :: "string \<times> json \<Rightarrow> error + string \<times> (string \<times> json) list" where
  "clean_bar entry =
     (case entry of
        (date, JObj d) \<Rightarrow>
          Inr (date, drop_none
            [(''open'', dict_get d ''1. open'' JNull),
             (''high'', dict_get d ''2. high'' JNull),
             (''low'', dict_get d ''3. low'' JNull),
             (''close'', dict_get d ''4. close'' JNull),
             (''adjusted_close'', dict_get d ''5. adjusted close'' JNull),
             (''volume'', py_or (dict_get d ''5. volume'' JNull) (dict_get d ''6. volume'' JNull)),
             (''dividend_amount'', dict_get d ''7. dividend amount'' JNull),
             (''split_coefficient'', dict_get d ''8. split coefficient'' JNull)])
      | (date, _) \<Rightarrow> Inl AttributeError)"

definition dated_item :: "string \<times> (string \<times> json) list \<Rightarrow> json" where
  "dated_item entry = (case entry of (date, vs) \<Rightarrow> JObj (dict_update [(''date'', JStr date)] vs))"

definition clean_stock_series :: "string \<Rightarrow> json \<Rightarrow> error + json" where
  "clean_stock_series interval raw_data =
     (case raw_data of
        JObj raw \<Rightarrow>
          bind_err
            (if has_key raw ''Meta Data'' then
               bind_err (clean_meta interval (dict_get raw ''Meta Data'' JNull))
                 (\<lambda>metadata. Inr [(''metadata'', metadata)])
             else Inr [])
            (\<lambda>cleaned_data.
               case find (\<lambda>key. str_contains key ''Time Series'') (map fst raw) of
                 None \<Rightarrow> Inr (JObj cleaned_data)
               | Some time_series_key \<Rightarrow>
                   (case dict_get raw time_series_key JNull of
                      JObj time_series \<Rightarrow>
                        bind_err (map_err clean_bar time_series)
                          (\<lambda>cleaned_time_series.
                             Inr (JObj (dict_set cleaned_data ''items''
                               (JList (map dated_item (sort_key fst cleaned_time_series))))))
                    | _ \<Rightarrow> Inl AttributeError))
      | _ \<Rightarrow> Inr raw_data)"

definition get_stock_time_series ::
  "data_source \<Rightarrow> string \<Rightarrow> string \<Rightarrow> bool \<Rightarrow> string \<Rightarrow> string option \<Rightarrow> bool \<Rightarrow> json io" where
  "get_stock_time_series ds symbol interval adjusted outputsize month extended_hours =
     bind_io (fetch_time_series ds symbol interval adjusted outputsize month extended_hours)
       (\<lambda>raw_data. lift (clean_stock_series interval raw_data))"

section \<open>Timestamp normalisation for the indicator packs\<close>

text \<open>\<^verbatim>\<open>_normalize_timestamp(timestamp, interval)\<close>, lines 170-189.\<close>

definition normalize_timestamp :: "string \<Rightarrow> string \<Rightarrow> string" where
  "normalize_timestamp timestamp interval =
     (if interval \<in> set [''daily'', ''weekly'', ''monthly''] then
        (if length timestamp = 10 then timestamp @ '' 00:00:00'' else timestamp)
      else
        (if length timestamp = 16 then timestamp @ '':00''
         else if length timestamp = 19 then timestamp
         else timestamp @ '' 00:00:00''))"

section \<open>Analytics routing\<close>

text \<open>
  \<^verbatim>\<open>analyze_stocks\<close>, lines 638-742. Both branches edit the Data Source's result in place
  when it is a dict, and return it as it is otherwise. \<open>placeholder_results\<close> is the
  nested loop over symbols and calculations that fills a missing \<^verbatim>\<open>results\<close>;
  \<open>echo_metadata\<close> is the last step of both branches: a missing \<^verbatim>\<open>metadata\<close> is set to the
  empty dict, and \<^verbatim>\<open>result["metadata"].update(...)\<close> raises \<^verbatim>\<open>AttributeError\<close> when the
  entry is not a dict.
\<close>

definition str_list :: "string list \<Rightarrow> json" where
  "str_list xs = JList (map JStr xs)"

definition opt_int :: "int option \<Rightarrow> json" where
  "opt_int n = (case n of None \<Rightarrow> JNull | Some i \<Rightarrow> JInt i)"

definition placeholder_results :: "string list \<Rightarrow> string list \<Rightarrow> json list" where
  "placeholder_results symbols calculations =
     concat (map (\<lambda>symbol.
       map (\<lambda>calc. JObj [(''symbol'', JStr symbol), (''calculation'', JStr calc),
                         (''value'', JFloat ''0.0''), (''date'', JStr ''2024-01-01'')])
         calculations) symbols)"

definition echo_metadata ::
  "(string \<times> json) list \<Rightarrow> string \<Rightarrow> string \<Rightarrow> string \<Rightarrow> json \<Rightarrow> string list \<Rightarrow> error + json" where
  "echo_metadata result0 interval series_range ohlc window_size calculations =
     (let result = (if has_key result0 ''metadata'' then result0
                    else dict_set result0 ''metadata'' (JObj []))
      in case dict_get result ''metadata'' JNull of
           JObj metadata \<Rightarrow>
             Inr (JObj (dict_set result ''metadata''
               (JObj (dict_update metadata
                  [(''interval'', JStr interval),
                   (''series_range'', JStr series_range),
                   (''ohlc'', JStr ohlc),
                   (''window_size'', window_size),
                   (''calculations'', str_list calculations)]))))
         | _ \<Rightarrow> Inl AttributeError)"

definition analyze_stocks ::
  "data_source \<Rightarrow> string list \<Rightarrow> string \<Rightarrow> string list \<Rightarrow> string \<Rightarrow> string \<Rightarrow> int option \<Rightarrow> json io" where
  "analyze_stocks ds symbols interval calculations series_range ohlc window_size =
     (if (case window_size of None \<Rightarrow> False | Some w \<Rightarrow> w \<ge> 10) then
        bind_io (await ds \<lparr>callee = fetch_analytics_sliding_window, args = [],
            kwargs = [(''symbols'', str_list symbols), (''interval'', JStr interval),
                      (''calculations'', str_list calculations),
                      (''series_range'', JStr series_range), (''ohlc'', JStr ohlc),
                      (''window_size'', opt_int window_size)]\<rparr>)
          (\<lambda>result0. lift
            (case result0 of
               JObj r0 \<Rightarrow>
                 (let r1 = dict_set r0 ''window_type'' (JStr ''sliding'');
                      r2 = dict_set r1 ''symbols'' (str_list symbols);
                      r3 = (if has_key r2 ''results'' then r2
                            else dict_set r2 ''results''
                                   (JList (placeholder_results symbols calculations)))
                  in echo_metadata r3 interval series_range ohlc (opt_int window_size) calculations)
             | _ \<Rightarrow> Inr result0))
      else
        bind_io (await ds \<lparr>callee = fetch_analytics_fixed_window, args = [],
            kwargs = [(''symbols'', str_list symbols), (''interval'', JStr interval),
                      (''calculations'', str_list calculations),
                      (''series_range'', JStr series_range), (''ohlc'', JStr ohlc)]\<rparr>)
          (\<lambda>result0. lift
            (case result0 of
               JObj r0 \<Rightarrow>
                 (let r1 = dict_set r0 ''window_type'' (JStr ''fixed'');
                      r2 = dict_set r1 ''symbols'' (str_list symbols);
                      r3 = (if has_key r2 ''data_format'' then r2
                            else dict_set r2 ''data_format'' (JStr ''json''));
                      r4 = (if has_key r3 ''results'' then r3
                            else dict_set r3 ''results''
                                   (JList (placeholder_results symbols calculations)))
                  in echo_metadata r4 interval series_range ohlc JNull calculations)
             | _ \<Rightarrow> Inr result0)))"

section \<open>Key normalizers\<close>

text \<open>
  \<^verbatim>\<open>k in x\<close> and \<^verbatim>\<open>x[k]\<close> for a string \<^verbatim>\<open>k\<close> and a payload value \<^verbatim>\<open>x\<close>: on a dict they
  test and read the key; on a string \<^verbatim>\<open>in\<close> is the substring test and on a list the
  membership test, and the subscript by a string raises \<^verbatim>\<open>TypeError\<close>; on any other value
  both raise \<^verbatim>\<open>TypeError\<close>. \<^verbatim>\<open>x.get(k, default)\<close> exists on a dict only.
\<close>

definition py_in :: "string \<Rightarrow> json \<Rightarrow> error + bool" where
  "py_in k x =
     (case x of
        JObj d \<Rightarrow> Inr (has_key d k)
      | JStr s \<Rightarrow> Inr (str_contains s k)
      | JList l \<Rightarrow> Inr (JStr k \<in> set l)
      | _ \<Rightarrow> Inl TypeError)"

definition py_subscript :: "json \<Rightarrow> string \<Rightarrow> error + json" where
  "py_subscript x k =
     (case x of
        JObj d \<Rightarrow> (case map_of d k of None \<Rightarrow> Inl (KeyError k) | Some v \<Rightarrow> Inr v)
      | _ \<Rightarrow> Inl TypeError)"

definition py_get_default :: "json \<Rightarrow> string \<Rightarrow> json \<Rightarrow> error + json" where
  "py_get_default x k dflt = (case x of JObj d \<Rightarrow> Inr (dict_get d k dflt) | _ \<Rightarrow> Inl AttributeError)"

text \<open>
  \<^verbatim>\<open>normalize_fx_rate_keys\<close> of \<^verbatim>\<open>get_current_fx_rate\<close>, lines 1031-1077. \<open>map_keys\<close> is the
  loop over \<^verbatim>\<open>key_mappings.items()\<close>, threading \<^verbatim>\<open>normalized_rate\<close>.
\<close>

definition key_mappings :: "(string \<times> string) list" where
  "key_mappings =
     [(''1. From_Currency Code'', ''from_currency_code''),
      (''2. From_Currency Name'', ''from_currency_name''),
      (''3. To_Currency Code'', ''to_currency_code''),
      (''4. To_Currency Name'', ''to_currency_name''),
      (''5. Exchange Rate'', ''exchange_rate''),
      (''6. Last Refreshed'', ''last_refreshed''),
      (''7. Time Zone'', ''time_zone''),
      (''8. Bid Price'', ''bid_price''),
      (''9. Ask Price'', ''ask_price'')]"

fun map_keys ::
  "(string \<times> string) list \<Rightarrow> json \<Rightarrow> (string \<times> json) list \<Rightarrow> error + (string \<times> json) list" where
  "map_keys [] rate_data normalized_rate = Inr normalized_rate"
| "map_keys ((old_key, new_key) # rest) rate_data normalized_rate =
     (case py_in old_key rate_data of
        Inl e \<Rightarrow> Inl e
      | Inr False \<Rightarrow> map_keys rest rate_data normalized_rate
      | Inr True \<Rightarrow>
          (case py_subscript rate_data old_key of
             Inl e \<Rightarrow> Inl e
           | Inr v \<Rightarrow> map_keys rest rate_data (dict_set normalized_rate new_key v)))"

definition normalize_fx_rate_keys :: "json \<Rightarrow> error + json" where
  "normalize_fx_rate_keys data =
     (case data of
        JObj d \<Rightarrow>
          (if has_key d ''Realtime Currency Exchange Rate'' then
             bind_err (map_keys key_mappings (dict_get d ''Realtime Currency Exchange Rate'' JNull) [])
               (\<lambda>normalized_rate. Inr (JObj normalized_rate))
           else Inr data)
      | _ \<Rightarrow> Inr data)"

definition get_current_fx_rate :: "data_source \<Rightarrow> string \<Rightarrow> string \<Rightarrow> json io" where
  "get_current_fx_rate ds from_currency to_currency =
     bind_io (await ds \<lparr>callee = fetch_exchange_rate,
                         args = [JStr from_currency, JStr to_currency], kwargs = []\<rparr>)
       (\<lambda>raw_data. lift (normalize_fx_rate_keys raw_data))"

text \<open>
  \<^verbatim>\<open>normalize_crypto_quote\<close> of \<^verbatim>\<open>get_current_crypto_quote\<close>, lines 1179-1244. The Data
  Source answers with JSON text, which \<^verbatim>\<open>json.loads\<close> decodes; the decoder is the standard
  library's and is a parameter here (\<open>loads\<close>; it raises \<^verbatim>\<open>TypeError\<close> by itself on an
  answer that is not text). \<^verbatim>\<open>sorted(..., reverse=True)\<close> orders the dates as strings,
  latest first. The reads \<^verbatim>\<open>metadata.get\<close> and \<^verbatim>\<open>latest_data.get\<close> come after both
  \<^verbatim>\<open>raise\<close> statements, in this order.
\<close>

definition normalize_crypto_quote ::
  "(string \<Rightarrow> error + json) \<Rightarrow> string \<Rightarrow> string \<Rightarrow> string \<Rightarrow> error + json" where
  "normalize_crypto_quote loads symbol market data_str =
     bind_err (loads data_str) (\<lambda>data.
     bind_err (py_get_default data ''Meta Data'' (JObj [])) (\<lambda>metadata.
       (case data of
          JObj d \<Rightarrow>
            (case find (\<lambda>key. str_contains key ''Time Series'' \<and> str_contains key ''Digital Currency'')
                    (map fst d) of
               None \<Rightarrow> Inl (ValueError ''Time series data not found in response'')
             | Some time_series_key \<Rightarrow>
                 (case dict_get d time_series_key JNull of
                    JObj time_series \<Rightarrow>
                      (case rev (sort (map fst time_series)) of
                         [] \<Rightarrow> Inl (ValueError ''No time series data available'')
                       | latest_date # older \<Rightarrow>
                           (case metadata of
                              JObj m \<Rightarrow>
                                (case dict_get time_series latest_date JNull of
                                   JObj latest_data \<Rightarrow>
                                     Inr (JObj
                                       [(''symbol'', dict_get m ''2. Digital Currency Code'' (JStr symbol)),
                                        (''name'', dict_get m ''3. Digital Currency Name'' (JStr [])),
                                        (''market'', dict_get m ''4. Market Code'' (JStr market)),
                                        (''market_name'', dict_get m ''5. Market Name'' (JStr [])),
                                        (''last_refreshed'', dict_get m ''6. Last Refreshed'' (JStr [])),
                                        (''time_zone'', dict_get m ''7. Time Zone'' (JStr [])),
                                        (''current_quote'', JObj
                                          [(''date'', JStr latest_date),
                                           (''open'', dict_get latest_data ''1. open'' (JStr [])),
                                           (''high'', dict_get latest_data ''2. high'' (JStr [])),
                                           (''low'', dict_get latest_data ''3. low'' (JStr [])),
                                           (''close'', dict_get latest_data ''4. close'' (JStr [])),
                                           (''volume'', dict_get latest_data ''5. volume'' (JStr []))])])
                                 | _ \<Rightarrow> Inl AttributeError)
                            | _ \<Rightarrow> Inl AttributeError))
                  | _ \<Rightarrow> Inl AttributeError))
        | _ \<Rightarrow> Inl AttributeError)))"

definition get_current_crypto_quote ::
  "(string \<Rightarrow> error + json) \<Rightarrow> data_source \<Rightarrow> string \<Rightarrow> string \<Rightarrow> json io" where
  "get_current_crypto_quote loads ds symbol market =
     bind_io (await ds \<lparr>callee = fetch_digital_currency_daily,
                         args = [JStr symbol, JStr market], kwargs = []\<rparr>)
       (\<lambda>raw_data.
          lift (case raw_data of
                  JStr data_str \<Rightarrow> normalize_crypto_quote loads symbol market data_str
                | _ \<Rightarrow> Inl TypeError))"

section \<open>Tabular decoders\<close>

text \<open>
  \<^verbatim>\<open>s.strip()\<close>, \<^verbatim>\<open>s.rstrip(chars)\<close> and \<^verbatim>\<open>s.split(sep)\<close> for a separator of one character.
  The characters Python counts as whitespace, among the code points below 256, are the
  ones listed in \<open>whitespace\<close>. A split never yields the empty list (the last case of
  \<open>split_on\<close> is there for totality only).
\<close>

definition whitespace :: "char list" where
  "whitespace = [CHR 0x09, CHR 0x0A, CHR 0x0B, CHR 0x0C, CHR 0x0D, CHR 0x1C, CHR 0x1D,
                 CHR 0x1E, CHR 0x1F, CHR 0x20, CHR 0x85, CHR 0xA0]"

definition rstrip_chars :: "char list \<Rightarrow> string \<Rightarrow> string" where
  "rstrip_chars chars s = rev (dropWhile (\<lambda>c. c \<in> set chars) (rev s))"

definition strip :: "string \<Rightarrow> string" where
  "strip s = rstrip_chars whitespace (dropWhile (\<lambda>c. c \<in> set whitespace) s)"

fun split_on :: "char \<Rightarrow> string \<Rightarrow> string list" where
  "split_on sep [] = [[]]"
| "split_on sep (c # cs) =
     (if c = sep then [] # split_on sep cs
      else (case split_on sep cs of w # ws \<Rightarrow> (c # w) # ws | [] \<Rightarrow> [[c]]))"

text \<open>
  The comprehension \<^verbatim>\<open>[val.strip().rstrip("\r") for val in line.split(",")]\<close> of both
  decoders.
\<close>

definition clean_values :: "string \<Rightarrow> string list" where
  "clean_values line = map (\<lambda>val. rstrip_chars [CHR 0x0D] (strip val)) (split_on CHR '','' line)"

text \<open>
  \<^verbatim>\<open>csv_to_list\<close> of \<^verbatim>\<open>get_market_calendar\<close>, lines 919-935. \<open>csv_item\<close> is the loop that
  fills \<^verbatim>\<open>item\<close> (reached only when there are as many values as headers), \<open>csv_rows\<close>
  the loop over \<^verbatim>\<open>lines[1:]\<close> threading \<^verbatim>\<open>data\<close>.
\<close>

definition csv_item :: "string list \<Rightarrow> string list \<Rightarrow> json" where
  "csv_item headers vals = JObj (dict_update [] (zip headers (map JStr vals)))"

fun csv_rows :: "string list \<Rightarrow> string list \<Rightarrow> json list \<Rightarrow> json list" where
  "csv_rows headers [] data = data"
| "csv_rows headers (line # rest) data =
     (let vals = clean_values line in
      if length vals = length headers then csv_rows headers rest (data @ [csv_item headers vals])
      else csv_rows headers rest data)"

definition csv_to_list :: "string \<Rightarrow> string list \<Rightarrow> json list" where
  "csv_to_list csv_data headers =
     (let lines = split_on CHR 0x0A (strip csv_data) in
      if length lines \<le> 1 then [] else csv_rows headers (drop 1 lines) [])"

text \<open>\<^verbatim>\<open>csv_to_listings\<close> of \<^verbatim>\<open>get_listing_status\<close>, lines 993-1013.\<close>

definition listing_of :: "string list \<Rightarrow> json" where
  "listing_of vals =
     JObj [(''symbol'', JStr (vals ! 0)),
           (''name'', JStr (vals ! 1)),
           (''exchange'', JStr (vals ! 2)),
           (''asset_type'', JStr (vals ! 3)),
           (''ipo_date'', JStr (vals ! 4)),
           (''delisting_date'', JStr (vals ! 5)),
           (''status'', JStr (vals ! 6))]"

fun listing_rows :: "string list \<Rightarrow> json list \<Rightarrow> json list" where
  "listing_rows [] listings = listings"
| "listing_rows (line # rest) listings =
     (let vals = clean_values line in
      if length vals \<ge> 7 then listing_rows rest (listings @ [listing_of vals])
      else listing_rows rest listings)"

definition csv_to_listings :: "string \<Rightarrow> json list" where
  "csv_to_listings csv_data =
     (let lines = split_on CHR 0x0A (strip csv_data) in
      if length lines \<le> 1 then [] else listing_rows (drop 1 lines) [])"

text \<open>
  \<^verbatim>\<open>get_market_calendar\<close>, lines 902-976, and \<^verbatim>\<open>get_listing_status\<close>, lines 979-1028. The
  Data Source answers with CSV text; \<^verbatim>\<open>.strip()\<close> on an answer that is not a string
  raises \<^verbatim>\<open>AttributeError\<close>. \<^verbatim>\<open>if symbol:\<close> and \<^verbatim>\<open>if date:\<close> hold for a string that is
  present and not empty.
\<close>

definition decode_csv :: "(string \<Rightarrow> json list) \<Rightarrow> json \<Rightarrow> error + json" where
  "decode_csv decoder payload =
     (case payload of JStr csv_data \<Rightarrow> Inr (JList (decoder csv_data)) | _ \<Rightarrow> Inl AttributeError)"

definition earnings_headers :: "string list" where
  "earnings_headers =
     [''symbol'', ''name'', ''report_date'', ''fiscal_date_ending'', ''estimate'', ''currency'']"

definition ipo_headers :: "string list" where
  "ipo_headers =
     [''symbol'', ''name'', ''ipo_date'', ''price_range_low'', ''price_range_high'',
      ''currency'', ''exchange'']"

definition get_market_calendar :: "data_source \<Rightarrow> string option \<Rightarrow> string \<Rightarrow> bool \<Rightarrow> json io" where
  "get_market_calendar ds symbol horizon with_ipos =
     bind_io (await ds \<lparr>callee = fetch_earnings_calendar,
                         args = [opt_str symbol, JStr horizon], kwargs = []\<rparr>)
       (\<lambda>earnings_csv.
     bind_io (lift (decode_csv (\<lambda>csv. csv_to_list csv earnings_headers) earnings_csv))
       (\<lambda>earnings_data.
     let result = [(''horizon'', JStr horizon), (''with_ipos'', JBool with_ipos),
                   (''earnings'', earnings_data)];
         result = (if truthy (opt_str symbol) then dict_set result ''symbol'' (opt_str symbol)
                   else result)
     in
       if with_ipos then
         bind_io (await ds \<lparr>callee = fetch_ipo_calendar, args = [], kwargs = []\<rparr>)
           (\<lambda>ipo_csv.
         bind_io (lift (decode_csv (\<lambda>csv. csv_to_list csv ipo_headers) ipo_csv))
           (\<lambda>ipo_data. lift (Inr (JObj (dict_set result ''ipos'' ipo_data)))))
       else lift (Inr (JObj (dict_set result ''ipos'' (JList []))))))"

definition get_listing_status :: "data_source \<Rightarrow> string option \<Rightarrow> string \<Rightarrow> json io" where
  "get_listing_status ds date state =
     bind_io (await ds \<lparr>callee = fetch_listing_status,
                         args = [opt_str date, JStr state], kwargs = []\<rparr>)
       (\<lambda>csv_data.
     bind_io (lift (decode_csv csv_to_listings csv_data))
       (\<lambda>listings_data.
     let result = [(''state'', JStr state), (''listings'', listings_data)] in
       lift (Inr (JObj (if truthy (opt_str date) then dict_set result ''date'' (opt_str date)
                        else result)))))"

text \<open>
  For the properties of the decoders: the text whose lines are the given ones, joined by
  newlines (\<^verbatim>\<open>"\n".join(lines)\<close> for a non-empty list of lines).
\<close>

fun join_lines :: "string list \<Rightarrow> string" where
  "join_lines [] = []"
| "join_lines [l] = l"
| "join_lines (l # l' # ls) = l @ [CHR 0x0A] @ join_lines (l' # ls)"

section \<open>Indicator packs\<close>



















subsection \<open>Vocabulary for the properties of the packs\<close>









text \<open>
  The condition under which a pack reads an indicator's answer
  (\<^verbatim>\<open>isinstance(data, dict) and "items" in data\<close>); the entries it retains from an answer;
  the answers on which the loops raise nothing; the rows an answer contributes.
\<close>

definition is_obj :: "json \<Rightarrow> bool" where
  "is_obj x = (case x of JObj d \<Rightarrow> True | _ \<Rightarrow> False)"





subsection \<open>Sample Data Source answers\<close>




definition sample_crypto_payload :: json where
  "sample_crypto_payload =
     JObj [(''Meta Data'', JObj [(''2. Digital Currency Code'', JStr ''BTC''),
                                 (''3. Digital Currency Name'', JStr ''Bitcoin'')]),
           (''Time Series (Digital Currency Daily)'',
              JObj [(''2024-01-02'', JObj [(''1. open'', JStr ''42000.0''), (''4. close'', JStr ''43000.0'')]),
                    (''2024-01-03'', JObj [(''4. close'', JStr ''44000.0'')]),
                    (''2024-01-01'', JObj [(''4. close'', JStr ''41000.0'')])])]"

section \<open>Verified properties\<close>

subsection \<open>The timestamp normaliser\<close>

text \<open>
  Claim C6, as the specification words it, has every timestamp of a date-only interval
  (daily, weekly, monthly) extended by the midnight suffix. The code guards that branch
  with \<^verbatim>\<open>len(timestamp) == 10\<close>: a timestamp of another length comes back unchanged.
  Here a daily timestamp that already carries a time of day is returned as it is, and is
  not the timestamp with the suffix appended.
\<close>

theorem normalize_timestamp_date_only_counterexample:
  "normalize_timestamp ''2024-01-15 09:30:00'' ''daily'' = ''2024-01-15 09:30:00'' \<and>
   normalize_timestamp ''2024-01-15 09:30:00'' ''daily'' \<noteq> ''2024-01-15 09:30:00'' @ '' 00:00:00''"
  by (simp add: normalize_timestamp_def)

text \<open>
  Claim C6, amended. For a date-only interval (daily, weekly, monthly) a timestamp of
  length 10 (\<^verbatim>\<open>YYYY-MM-DD\<close>) gets the suffix \<^verbatim>\<open>" 00:00:00"\<close> and a timestamp of any other
  length passes through unchanged. For every other interval a timestamp of length 16
  (\<^verbatim>\<open>YYYY-MM-DD HH:MM\<close>) gets \<^verbatim>\<open>":00"\<close>, one of length 19 passes through unchanged, and
  any other shape gets the midnight suffix. In the three shapes the comments of the code
  name, the result has the 19 characters of \<^verbatim>\<open>YYYY-MM-DD HH:MM:SS\<close>.
\<close>

theorem normalize_timestamp_cases:
  fixes ts interval :: string
  defines "date_only \<equiv> interval \<in> {''daily'', ''weekly'', ''monthly''}"
  shows
    "(date_only \<and> length ts = 10 \<longrightarrow> normalize_timestamp ts interval = ts @ '' 00:00:00'')
   \<and> (date_only \<and> length ts \<noteq> 10 \<longrightarrow> normalize_timestamp ts interval = ts)
   \<and> (\<not> date_only \<and> length ts = 16 \<longrightarrow> normalize_timestamp ts interval = ts @ '':00'')
   \<and> (\<not> date_only \<and> length ts = 19 \<longrightarrow> normalize_timestamp ts interval = ts)
   \<and> (\<not> date_only \<and> length ts \<noteq> 16 \<and> length ts \<noteq> 19 \<longrightarrow>
        normalize_timestamp ts interval = ts @ '' 00:00:00'')
   \<and> ((date_only \<and> length ts = 10) \<or> (\<not> date_only \<and> length ts \<in> {16, 19}) \<longrightarrow>
        length (normalize_timestamp ts interval) = 19)"
  unfolding date_only_def normalize_timestamp_def by auto

theorem normalize_timestamp_cases_witness:
  "normalize_timestamp ''2024-01-15'' ''weekly'' = ''2024-01-15 00:00:00''
   \<and> normalize_timestamp ''2024-01-15 09:30'' ''5min'' = ''2024-01-15 09:30:00''
   \<and> normalize_timestamp ''2024-01-15 09:30:00'' ''5min'' = ''2024-01-15 09:30:00''
   \<and> normalize_timestamp ''2024-01-15'' ''5min'' = ''2024-01-15 00:00:00''
   \<and> length (normalize_timestamp ''2024-01-15 09:30'' ''60min'') = 19"
  using normalize_timestamp_cases [where ts = "''2024-01-15''" and interval = "''weekly''"]
    normalize_timestamp_cases [where ts = "''2024-01-15 09:30''" and interval = "''5min''"]
    normalize_timestamp_cases [where ts = "''2024-01-15 09:30:00''" and interval = "''5min''"]
    normalize_timestamp_cases [where ts = "''2024-01-15''" and interval = "''5min''"]
    normalize_timestamp_cases [where ts = "''2024-01-15 09:30''" and interval = "''60min''"]
  by simp

subsection \<open>Helper facts: strings and handler runs\<close>

lemma str_contains_here: "str_contains (sub @ c) sub"
proof (cases "sub @ c")
  case Nil
  then show ?thesis by simp
next
  case (Cons x xs)
  have "take (length sub) (x # xs) = sub"
    unfolding Cons [symmetric] by simp
  then show ?thesis
    unfolding Cons by simp
qed

lemma str_contains_append: "str_contains (a @ sub @ c) sub"
proof (induction a)
  case Nil
  show ?case using str_contains_here by simp
next
  case (Cons x a)
  then show ?case by simp
qed

lemma str_contains_mid: "s = a @ sub @ c \<Longrightarrow> str_contains s sub"
  by (simp add: str_contains_append)

lemma await_fst: "fst (await ds c) = [c]" and await_snd: "snd (await ds c) = ds c"
  by (simp_all add: await_def)

lemma bind_io_lift_fst: "fst (bind_io m (\<lambda>x. lift (f x))) = fst m"
  by (auto simp: bind_io_def lift_def split: prod.splits sum.splits)

lemma bind_io_Inl: "m = (calls, Inl e) \<Longrightarrow> bind_io m f = (calls, Inl e)"
  by (simp add: bind_io_def)

subsection \<open>The time-series router\<close>

lemma stock_series_calls:
  "fst (get_stock_time_series ds symbol interval adjusted outputsize month extended_hours) =
   fst (fetch_time_series ds symbol interval adjusted outputsize month extended_hours)"
  by (simp add: get_stock_time_series_def bind_io_lift_fst)

lemma fetch_time_series_unsupported:
  assumes "interval \<notin> {''1min'', ''5min'', ''15min'', ''30min'', ''60min'',
                       ''daily'', ''weekly'', ''monthly''}"
  shows "fetch_time_series ds symbol interval adjusted outputsize month extended_hours =
         ([], Inl (ValueError (''Unsupported interval: '' @ interval)))"
proof -
  have a: "interval \<notin> set intraday_intervals"
    using assms unfolding intraday_intervals_def by simp
  have b: "interval \<noteq> ''daily''" "interval \<noteq> ''weekly''" "interval \<noteq> ''monthly''"
    using assms by simp_all
  have "map_of function_map (interval, adjusted) = None"
    unfolding function_map_def using b by simp
  then show ?thesis
    using a by (simp add: fetch_time_series_def raise_def)
qed

lemma stock_series_unsupported:
  assumes "interval \<notin> {''1min'', ''5min'', ''15min'', ''30min'', ''60min'',
                       ''daily'', ''weekly'', ''monthly''}"
  shows "get_stock_time_series ds symbol interval adjusted outputsize month extended_hours =
         ([], Inl (ValueError (''Unsupported interval: '' @ interval)))"
  unfolding get_stock_time_series_def
  by (rule bind_io_Inl) (rule fetch_time_series_unsupported [OF assms])

lemma fetch_time_series_intraday:
  assumes "interval \<in> set intraday_intervals"
  shows "fetch_time_series ds symbol interval adjusted outputsize month extended_hours =
         await ds \<lparr>callee = fetch_intraday, args = [],
          kwargs = [(''symbol'', JStr symbol), (''interval'', JStr interval),
                    (''datatype'', JStr ''json''), (''adjusted'', JBool adjusted),
                    (''extended_hours'', JBool extended_hours),
                    (''outputsize'', JStr outputsize), (''month'', opt_str month)]\<rparr>"
  using assms by (simp add: fetch_time_series_def)

lemma fetch_time_series_pair:
  assumes "(interval, adjusted, f) \<in>
           {(''daily'', False, fetch_time_series_daily),
            (''daily'', True, fetch_time_series_daily_adjusted),
            (''weekly'', False, fetch_time_series_weekly),
            (''weekly'', True, fetch_time_series_weekly_adjusted),
            (''monthly'', False, fetch_time_series_monthly),
            (''monthly'', True, fetch_time_series_monthly_adjusted)}"
  shows "\<exists>c. fetch_time_series ds symbol interval adjusted outputsize month extended_hours = ([c], ds c)
     \<and> callee c = f
     \<and> fst (get_stock_time_series ds symbol interval adjusted outputsize month extended_hours) = [c]"
  unfolding stock_series_calls
  using assms
  by (elim insertE emptyE;
      simp add: fetch_time_series_def function_map_def intraday_intervals_def await_def)

lemma fetch_time_series_intraday_call:
  assumes "interval \<in> {''1min'', ''5min'', ''15min'', ''30min'', ''60min''}"
  shows "\<exists>c. fetch_time_series ds symbol interval adjusted outputsize month extended_hours = ([c], ds c)
     \<and> callee c = fetch_intraday
     \<and> fst (get_stock_time_series ds symbol interval adjusted outputsize month extended_hours) = [c]"
proof -
  have "interval \<in> set intraday_intervals"
    using assms unfolding intraday_intervals_def by simp
  then show ?thesis
    unfolding stock_series_calls
    by (simp add: fetch_time_series_def await_def)
qed

text \<open>
  Claim C1. With an intraday tag (1min, 5min, 15min, 30min, 60min) the router issues
  exactly one call, to \<^verbatim>\<open>fetch_intraday\<close>, whatever the adjusted flag is, and returns the
  Data Source's answer. With one of the six pairs over daily, weekly, monthly and the
  adjusted flag it issues exactly one call, to the operation of that pair. With any other
  interval it raises \<^verbatim>\<open>ValueError\<close> and the list of calls issued is empty. The same calls
  and the same failure are those of \<^verbatim>\<open>get_stock_time_series\<close>, which wraps the router.
\<close>

theorem time_series_router:
  fixes ds :: data_source
  shows
   "(interval \<in> {''1min'', ''5min'', ''15min'', ''30min'', ''60min''} \<longrightarrow>
       (\<exists>c. fetch_time_series ds symbol interval adjusted outputsize month extended_hours = ([c], ds c)
          \<and> callee c = fetch_intraday
          \<and> fst (get_stock_time_series ds symbol interval adjusted outputsize month extended_hours) = [c]))
  \<and> ((interval, adjusted, f) \<in>
           {(''daily'', False, fetch_time_series_daily),
            (''daily'', True, fetch_time_series_daily_adjusted),
            (''weekly'', False, fetch_time_series_weekly),
            (''weekly'', True, fetch_time_series_weekly_adjusted),
            (''monthly'', False, fetch_time_series_monthly),
            (''monthly'', True, fetch_time_series_monthly_adjusted)} \<longrightarrow>
       (\<exists>c. fetch_time_series ds symbol interval adjusted outputsize month extended_hours = ([c], ds c)
          \<and> callee c = f
          \<and> fst (get_stock_time_series ds symbol interval adjusted outputsize month extended_hours) = [c]))
  \<and> (interval \<notin> {''1min'', ''5min'', ''15min'', ''30min'', ''60min'',
                     ''daily'', ''weekly'', ''monthly''} \<longrightarrow>
       fetch_time_series ds symbol interval adjusted outputsize month extended_hours =
         ([], Inl (ValueError (''Unsupported interval: '' @ interval)))
     \<and> get_stock_time_series ds symbol interval adjusted outputsize month extended_hours =
         ([], Inl (ValueError (''Unsupported interval: '' @ interval))))"
proof (intro conjI impI)
qed (erule fetch_time_series_intraday_call fetch_time_series_pair
       fetch_time_series_unsupported stock_series_unsupported)+

theorem time_series_router_witness:
  "map callee (fst (fetch_time_series (\<lambda>c. Inr JNull) ''IBM'' ''5min'' True ''compact'' None True))
     = [fetch_intraday]
   \<and> map callee (fst (get_stock_time_series (\<lambda>c. Inr JNull) ''IBM'' ''weekly'' True ''compact'' None True))
     = [fetch_time_series_weekly_adjusted]
   \<and> get_stock_time_series (\<lambda>c. Inr JNull) ''IBM'' ''hourly'' False ''compact'' None True
     = ([], Inl (ValueError ''Unsupported interval: hourly''))"
  using
    time_series_router [where interval = "''5min''" and ds = "\<lambda>c. Inr JNull" and symbol = "''IBM''"
      and adjusted = True and outputsize = "''compact''" and month = None and extended_hours = True]
    time_series_router [where interval = "''weekly''" and ds = "\<lambda>c. Inr JNull" and symbol = "''IBM''"
      and adjusted = True and f = fetch_time_series_weekly_adjusted
      and outputsize = "''compact''" and month = None and extended_hours = True]
    time_series_router [where interval = "''hourly''" and ds = "\<lambda>c. Inr JNull" and symbol = "''IBM''"
      and adjusted = False and outputsize = "''compact''" and month = None and extended_hours = True]
  by auto

subsection \<open>Unsupported discriminants\<close>

lemma financial_statements_unsupported:
  assumes "lower statement_type \<notin> {''all'', ''income'', ''balance'', ''cash_flow''}"
  shows "\<exists>msg. get_financial_statements ds symbol statement_type = ([], Inl (ValueError msg))
     \<and> str_contains msg (lower statement_type)
     \<and> str_contains msg ''income'' \<and> str_contains msg ''balance''
     \<and> str_contains msg ''cash_flow'' \<and> str_contains msg ''all''"
proof -
  define st where "st = lower statement_type"
  define msg where "msg = ''Unsupported statement type: '' @ st @
          ''. Supported types: '' @ [CHR 0x27] @ ''income'' @ [CHR 0x27] @ '', '' @
          [CHR 0x27] @ ''balance'' @ [CHR 0x27] @ '', '' @
          [CHR 0x27] @ ''cash_flow'' @ [CHR 0x27] @ '', '' @
          [CHR 0x27] @ ''all'' @ [CHR 0x27]"
  have ne: "st \<noteq> ''all''" "st \<noteq> ''income''" "st \<noteq> ''balance''" "st \<noteq> ''cash_flow''"
    using assms unfolding st_def by simp_all
  have run: "get_financial_statements ds symbol statement_type = ([], Inl (ValueError msg))"
    unfolding get_financial_statements_def Let_def st_def [symmetric] msg_def raise_def
    using ne by simp
  have c0: "str_contains msg st"
    unfolding msg_def by (rule str_contains_append)
  have c1: "str_contains msg ''income''"
    by (rule str_contains_mid [where a = "''Unsupported statement type: '' @ st @
          ''. Supported types: '' @ [CHR 0x27]"]) (simp add: msg_def)
  have c2: "str_contains msg ''balance''"
    by (rule str_contains_mid [where a = "''Unsupported statement type: '' @ st @
          ''. Supported types: '' @ [CHR 0x27] @ ''income'' @ [CHR 0x27] @ '', '' @ [CHR 0x27]"])
       (simp add: msg_def)
  have c3: "str_contains msg ''cash_flow''"
    by (rule str_contains_mid [where a = "''Unsupported statement type: '' @ st @
          ''. Supported types: '' @ [CHR 0x27] @ ''income'' @ [CHR 0x27] @ '', '' @
          [CHR 0x27] @ ''balance'' @ [CHR 0x27] @ '', '' @ [CHR 0x27]"])
       (simp add: msg_def)
  have c4: "str_contains msg ''all''"
    by (rule str_contains_mid [where a = "''Unsupported statement type: '' @ st @
          ''. Supported types: '' @ [CHR 0x27] @ ''income'' @ [CHR 0x27] @ '', '' @
          [CHR 0x27] @ ''balance'' @ [CHR 0x27] @ '', '' @
          [CHR 0x27] @ ''cash_flow'' @ [CHR 0x27] @ '', '' @ [CHR 0x27]" and c = "[CHR 0x27]"])
       (simp add: msg_def)
  show ?thesis
    using run c0 c1 c2 c3 c4 unfolding st_def by blast
qed

lemma symbol_overview_unsupported:
  assumes "profile_type \<notin> {''company'', ''etf''}"
  shows "\<exists>msg. get_symbol_overview ds symbol profile_type = ([], Inl (ValueError msg))
     \<and> str_contains msg profile_type"
proof -
  have ne: "profile_type \<noteq> ''company''" "profile_type \<noteq> ''etf''"
    using assms by simp_all
  have "get_symbol_overview ds symbol profile_type =
          ([], Inl (ValueError (''Unsupported profile type: '' @ profile_type)))"
    unfolding get_symbol_overview_def raise_def using ne by simp
  moreover have "str_contains (''Unsupported profile type: '' @ profile_type) profile_type"
    using str_contains_append [of "''Unsupported profile type: ''" profile_type "[]"] by simp
  ultimately show ?thesis by blast
qed

lemma interval_unsupported_message:
  assumes "interval \<notin> {''1min'', ''5min'', ''15min'', ''30min'', ''60min'',
                       ''daily'', ''weekly'', ''monthly''}"
  shows "\<exists>msg. fetch_time_series ds symbol interval adjusted outputsize month extended_hours =
           ([], Inl (ValueError msg))
     \<and> get_stock_time_series ds symbol interval adjusted outputsize month extended_hours =
           ([], Inl (ValueError msg))
     \<and> str_contains msg interval"
proof -
  have "str_contains (''Unsupported interval: '' @ interval) interval"
    using str_contains_append [of "''Unsupported interval: ''" interval "[]"] by simp
  then show ?thesis
    using fetch_time_series_unsupported [OF assms] stock_series_unsupported [OF assms] by blast
qed

text \<open>
  Claim C8, amended. An unsupported interval, statement type or profile type makes the
  router raise \<^verbatim>\<open>ValueError\<close> before any Data Source call (the list of calls is empty),
  and the message contains the offending value (for the statement type, its lower-cased
  form, which is what the router compares). Only the message of
  \<^verbatim>\<open>get_financial_statements\<close> also lists the supported values.
\<close>

theorem unsupported_discriminant:
  fixes ds :: data_source
  shows
   "(interval \<notin> {''1min'', ''5min'', ''15min'', ''30min'', ''60min'',
                   ''daily'', ''weekly'', ''monthly''} \<longrightarrow>
       (\<exists>msg. fetch_time_series ds symbol interval adjusted outputsize month extended_hours =
                 ([], Inl (ValueError msg))
          \<and> get_stock_time_series ds symbol interval adjusted outputsize month extended_hours =
                 ([], Inl (ValueError msg))
          \<and> str_contains msg interval))
  \<and> (lower statement_type \<notin> {''all'', ''income'', ''balance'', ''cash_flow''} \<longrightarrow>
       (\<exists>msg. get_financial_statements ds symbol statement_type = ([], Inl (ValueError msg))
          \<and> str_contains msg (lower statement_type)
          \<and> str_contains msg ''income'' \<and> str_contains msg ''balance''
          \<and> str_contains msg ''cash_flow'' \<and> str_contains msg ''all''))
  \<and> (profile_type \<notin> {''company'', ''etf''} \<longrightarrow>
       (\<exists>msg. get_symbol_overview ds symbol profile_type = ([], Inl (ValueError msg))
          \<and> str_contains msg profile_type))"
proof (intro conjI impI)
qed (erule interval_unsupported_message financial_statements_unsupported
       symbol_overview_unsupported)+

theorem unsupported_discriminant_witness:
  "(\<exists>msg. get_stock_time_series (\<lambda>c. Inr JNull) ''IBM'' ''hourly'' False ''compact'' None True =
            ([], Inl (ValueError msg)) \<and> str_contains msg ''hourly'')
   \<and> (\<exists>msg. get_financial_statements (\<lambda>c. Inr JNull) ''IBM'' ''Equity'' =
            ([], Inl (ValueError msg)) \<and> str_contains msg ''equity'' \<and> str_contains msg ''cash_flow'')
   \<and> (\<exists>msg. get_symbol_overview (\<lambda>c. Inr JNull) ''IBM'' ''fund'' =
            ([], Inl (ValueError msg)) \<and> str_contains msg ''fund'')"
proof -
  have low: "lower ''Equity'' = ''equity''"
    by (simp add: lower_def lower_char_def upper_chars_def lower_chars_def)
  show ?thesis
    using unsupported_discriminant [where interval = "''hourly''" and ds = "\<lambda>c. Inr JNull"
      and symbol = "''IBM''" and adjusted = False and outputsize = "''compact''" and month = None
      and extended_hours = True and statement_type = "''Equity''" and profile_type = "''fund''"]
    unfolding low by auto
qed

text \<open>
  Claim C8 as the specification words it has every such message list the supported
  values. The messages of the profile-type and interval routers are the fixed prefix and
  the offending value only: no supported value occurs in them.
\<close>

theorem unsupported_message_counterexample:
  "get_symbol_overview (\<lambda>c. Inr JNull) ''IBM'' ''fund'' =
     ([], Inl (ValueError ''Unsupported profile type: fund''))
   \<and> \<not> str_contains ''Unsupported profile type: fund'' ''company''
   \<and> \<not> str_contains ''Unsupported profile type: fund'' ''etf''
   \<and> fetch_time_series (\<lambda>c. Inr JNull) ''IBM'' ''hourly'' False ''compact'' None True =
     ([], Inl (ValueError ''Unsupported interval: hourly''))
   \<and> \<not> str_contains ''Unsupported interval: hourly'' ''daily''"
  by (simp add: get_symbol_overview_def fetch_time_series_def intraday_intervals_def
      function_map_def raise_def)

subsection \<open>The loops of the packs\<close>





lemma has_key_map_of: "has_key d k \<longleftrightarrow> map_of d k \<noteq> None"
  by (simp add: has_key_def map_of_eq_None_iff)






subsection \<open>Running a pack\<close>











subsection \<open>The four packs as instances\<close>











subsection \<open>The indicator packs\<close>













subsection \<open>The packs on the sample answers\<close>







subsection \<open>The tabular decoders\<close>

lemma split_on_nonempty: "split_on sep s \<noteq> []"
  by (induction s) (auto split: list.splits)

lemma split_on_single: "sep \<notin> set x \<Longrightarrow> split_on sep x = [x]"
  by (induction x) auto

lemma split_on_append: "sep \<notin> set x \<Longrightarrow> split_on sep (x @ sep # rest) = x # split_on sep rest"
  by (induction x) auto

lemma split_join_lines:
  "ls \<noteq> [] \<Longrightarrow> \<forall>l\<in>set ls. CHR 0x0A \<notin> set l \<Longrightarrow> split_on CHR 0x0A (join_lines ls) = ls"
proof (induction ls rule: join_lines.induct)
  case 1
  then show ?case by simp
next
  case (2 l)
  then show ?case by (simp add: split_on_single)
next
  case (3 l l' ls)
  then show ?case by (simp add: split_on_append)
qed

lemma rstrip_cr_strip: "rstrip_chars [CHR 0x0D] (strip v) = strip v"
proof -
  define t where "t = dropWhile (\<lambda>c. c \<in> set whitespace) (rev (dropWhile (\<lambda>c. c \<in> set whitespace) v))"
  have s: "strip v = rev t"
    by (simp add: strip_def rstrip_chars_def t_def)
  have "dropWhile (\<lambda>c. c \<in> set [CHR 0x0D]) t = t"
  proof (cases t)
    case Nil
    then show ?thesis by simp
  next
    case (Cons c cs)
    have "\<not> hd t \<in> set whitespace"
      unfolding t_def by (rule hd_dropWhile) (use Cons t_def in auto)
    with Cons have "c \<noteq> CHR 0x0D"
      by (auto simp: whitespace_def)
    with Cons show ?thesis by simp
  qed
  then show ?thesis
    by (simp add: s rstrip_chars_def)
qed

lemma clean_values_strip: "clean_values line = map strip (split_on CHR '','' line)"
  by (simp add: clean_values_def rstrip_cr_strip)

lemma csv_rows_eq:
  "csv_rows headers lines data =
     data @ map (\<lambda>row. csv_item headers (map strip (split_on CHR '','' row)))
              (filter (\<lambda>row. length (split_on CHR '','' row) = length headers) lines)"
  by (induction lines arbitrary: data) (simp_all add: clean_values_strip Let_def)

lemma listing_rows_eq:
  "listing_rows lines listings =
     listings @ map (\<lambda>row. listing_of (map strip (split_on CHR '','' row)))
              (filter (\<lambda>row. length (split_on CHR '','' row) \<ge> 7) lines)"
  by (induction lines arbitrary: listings) (simp_all add: clean_values_strip Let_def)

lemma csv_to_list_lines:
  assumes "strip csv_data = join_lines (header_line # rows)"
    and "\<forall>l\<in>set (header_line # rows). CHR 0x0A \<notin> set l"
  shows "csv_to_list csv_data headers =
     map (\<lambda>row. csv_item headers (map strip (split_on CHR '','' row)))
       (filter (\<lambda>row. length (split_on CHR '','' row) = length headers) rows)"
proof -
  have "split_on CHR 0x0A (strip csv_data) = header_line # rows"
    unfolding assms(1) by (rule split_join_lines [OF _ assms(2)]) simp
  then show ?thesis
    by (cases rows) (simp_all add: csv_to_list_def csv_rows_eq)
qed

lemma csv_to_listings_lines:
  assumes "strip csv_data = join_lines (header_line # rows)"
    and "\<forall>l\<in>set (header_line # rows). CHR 0x0A \<notin> set l"
  shows "csv_to_listings csv_data =
     map (\<lambda>row. listing_of (map strip (split_on CHR '','' row)))
       (filter (\<lambda>row. length (split_on CHR '','' row) \<ge> 7) rows)"
proof -
  have "split_on CHR 0x0A (strip csv_data) = header_line # rows"
    unfolding assms(1) by (rule split_join_lines [OF _ assms(2)]) simp
  then show ?thesis
    by (cases rows) (simp_all add: csv_to_listings_def listing_rows_eq)
qed

text \<open>
  Claim C5, amended. Let the text, once stripped, consist of a header line and data lines
  \<open>rows\<close> joined by newlines (the empty text is the case of an empty header line and no
  row). Then \<^verbatim>\<open>csv_to_list\<close> yields, in the original order, one record for each data line
  whose comma-split field count equals the number of expected headers, and
  \<^verbatim>\<open>csv_to_listings\<close> one record for each data line with \<^emph>\<open>at least\<close> 7 fields, built from
  its first seven; every other line is left out, and nothing is raised. The values are the
  fields stripped of whitespace (carriage returns included). So a text with no data line
  yields the empty sequence, and \<open>N\<close> data lines of the expected field count yield \<open>N\<close>
  records.
\<close>

theorem csv_decoders:
  assumes "strip csv_data = join_lines (header_line # rows)"
    and "\<forall>l\<in>set (header_line # rows). CHR 0x0A \<notin> set l"
  shows "csv_to_list csv_data headers =
           map (\<lambda>row. csv_item headers (map strip (split_on CHR '','' row)))
             (filter (\<lambda>row. length (split_on CHR '','' row) = length headers) rows)
     \<and> csv_to_listings csv_data =
           map (\<lambda>row. listing_of (map strip (split_on CHR '','' row)))
             (filter (\<lambda>row. length (split_on CHR '','' row) \<ge> 7) rows)
     \<and> (rows = [] \<longrightarrow> csv_to_list csv_data headers = [] \<and> csv_to_listings csv_data = [])
     \<and> ((\<forall>row\<in>set rows. length (split_on CHR '','' row) = length headers) \<longrightarrow>
          length (csv_to_list csv_data headers) = length rows)
     \<and> ((\<forall>row\<in>set rows. length (split_on CHR '','' row) = 7) \<longrightarrow>
          length (csv_to_listings csv_data) = length rows)"
proof -
  note a = csv_to_list_lines [OF assms, of headers]
  note b = csv_to_listings_lines [OF assms]
  have c: "rows = [] \<longrightarrow> csv_to_list csv_data headers = [] \<and> csv_to_listings csv_data = []"
    unfolding a b by simp
  have d: "(\<forall>row\<in>set rows. length (split_on CHR '','' row) = length headers) \<longrightarrow>
          length (csv_to_list csv_data headers) = length rows"
    unfolding a by simp
  have e: "(\<forall>row\<in>set rows. length (split_on CHR '','' row) = 7) \<longrightarrow>
          length (csv_to_listings csv_data) = length rows"
    unfolding b by simp
  from a b c d e show ?thesis by (intro conjI)
qed

theorem csv_decoders_witness:
  "csv_to_listings (''symbol,name,exchange,asset_type,ipo_date,delisting_date,status'' @ [CHR 0x0A] @
      ''AAPL,Apple Inc,NASDAQ,Stock,1980-12-12,,Active'' @ [CHR 0x0D, CHR 0x0A] @
      ''bad,line'' @ [CHR 0x0A]) =
     [JObj [(''symbol'', JStr ''AAPL''), (''name'', JStr ''Apple Inc''),
            (''exchange'', JStr ''NASDAQ''), (''asset_type'', JStr ''Stock''),
            (''ipo_date'', JStr ''1980-12-12''), (''delisting_date'', JStr ''''),
            (''status'', JStr ''Active'')]]
   \<and> csv_to_list (''symbol,name,exchange,asset_type,ipo_date,delisting_date,status'' @ [CHR 0x0A] @
      ''AAPL,Apple Inc,NASDAQ,Stock,1980-12-12,,Active'' @ [CHR 0x0D, CHR 0x0A] @
      ''bad,line'' @ [CHR 0x0A]) [''a'', ''b''] =
     [JObj [(''a'', JStr ''bad''), (''b'', JStr ''line'')]]
   \<and> csv_to_list '''' earnings_headers = []"
proof -
  have s1: "strip (''symbol,name,exchange,asset_type,ipo_date,delisting_date,status'' @ [CHR 0x0A] @
      ''AAPL,Apple Inc,NASDAQ,Stock,1980-12-12,,Active'' @ [CHR 0x0D, CHR 0x0A] @
      ''bad,line'' @ [CHR 0x0A]) =
    join_lines [''symbol,name,exchange,asset_type,ipo_date,delisting_date,status'',
      ''AAPL,Apple Inc,NASDAQ,Stock,1980-12-12,,Active'' @ [CHR 0x0D], ''bad,line'']"
    by (simp add: strip_def rstrip_chars_def whitespace_def)
  have n1: "\<forall>l\<in>set [''symbol,name,exchange,asset_type,ipo_date,delisting_date,status'',
      ''AAPL,Apple Inc,NASDAQ,Stock,1980-12-12,,Active'' @ [CHR 0x0D], ''bad,line'']. CHR 0x0A \<notin> set l"
    by simp
  have s2: "strip '''' = join_lines [[]]"
    by (simp add: strip_def rstrip_chars_def)
  have n2: "\<forall>l\<in>set [[]]. CHR 0x0A \<notin> set l"
    by simp
  note t1 = csv_decoders [OF s1 n1, of "[''a'', ''b'']"]
  note t2 = csv_decoders [OF s2 n2, of earnings_headers]
  have a: "csv_to_listings (''symbol,name,exchange,asset_type,ipo_date,delisting_date,status'' @ [CHR 0x0A] @
      ''AAPL,Apple Inc,NASDAQ,Stock,1980-12-12,,Active'' @ [CHR 0x0D, CHR 0x0A] @
      ''bad,line'' @ [CHR 0x0A]) =
     [JObj [(''symbol'', JStr ''AAPL''), (''name'', JStr ''Apple Inc''),
            (''exchange'', JStr ''NASDAQ''), (''asset_type'', JStr ''Stock''),
            (''ipo_date'', JStr ''1980-12-12''), (''delisting_date'', JStr ''''),
            (''status'', JStr ''Active'')]]"
    unfolding t1 [THEN conjunct2, THEN conjunct1]
    by (simp add: listing_of_def strip_def rstrip_chars_def whitespace_def)
  have b: "csv_to_list (''symbol,name,exchange,asset_type,ipo_date,delisting_date,status'' @ [CHR 0x0A] @
      ''AAPL,Apple Inc,NASDAQ,Stock,1980-12-12,,Active'' @ [CHR 0x0D, CHR 0x0A] @
      ''bad,line'' @ [CHR 0x0A]) [''a'', ''b''] =
     [JObj [(''a'', JStr ''bad''), (''b'', JStr ''line'')]]"
    unfolding t1 [THEN conjunct1]
    by (simp add: csv_item_def dict_update_def strip_def rstrip_chars_def whitespace_def)
  have c: "csv_to_list '''' earnings_headers = []"
    using t2 by simp
  from a b c show ?thesis by (intro conjI)
qed

text \<open>
  Claim C5 as the specification words it has every data line whose field count differs
  from the header's left out. \<^verbatim>\<open>csv_to_listings\<close> tests \<^verbatim>\<open>len(values) >= 7\<close>: under a
  header of 7 fields, a data line of 8 fields is kept, read through its first seven.
\<close>

theorem csv_to_listings_extra_field_counterexample:
  "length (split_on CHR '','' ''symbol,name,exchange,asset_type,ipo_date,delisting_date,status'') = 7
   \<and> length (split_on CHR '','' ''AAPL,Apple Inc,NASDAQ,Stock,1980-12-12,,Active,extra'') = 8
   \<and> csv_to_listings (''symbol,name,exchange,asset_type,ipo_date,delisting_date,status'' @ [CHR 0x0A] @
        ''AAPL,Apple Inc,NASDAQ,Stock,1980-12-12,,Active,extra'') =
     [JObj [(''symbol'', JStr ''AAPL''), (''name'', JStr ''Apple Inc''),
            (''exchange'', JStr ''NASDAQ''), (''asset_type'', JStr ''Stock''),
            (''ipo_date'', JStr ''1980-12-12''), (''delisting_date'', JStr ''''),
            (''status'', JStr ''Active'')]]"
  by (simp add: csv_to_listings_def listing_of_def clean_values_def strip_def rstrip_chars_def
      whitespace_def)

subsection \<open>The key normalizers\<close>

lemma map_of_dict_set: "map_of (dict_set d k v) = (map_of d)(k \<mapsto> v)"
  by (induction d) (auto simp: fun_eq_iff)

lemma keys_dict_set: "fst ` set (dict_set d k v) = insert k (fst ` set d)"
  by (induction d k v rule: dict_set.induct) (simp_all add: insert_commute)

lemma map_keys_obj:
  "\<exists>out. map_keys km (JObj rate) acc = Inr out
     \<and> set (map fst out) \<subseteq> set (map fst acc) \<union> set (map snd km)
     \<and> (\<forall>k. k \<notin> set (map snd km) \<longrightarrow> map_of out k = map_of acc k)
     \<and> (distinct (map snd km) \<longrightarrow>
          (\<forall>p\<in>set km. map_of out (snd p) =
             (case map_of rate (fst p) of None \<Rightarrow> map_of acc (snd p) | Some v \<Rightarrow> Some v)))"
proof (induction km arbitrary: acc)
  case Nil
  then show ?case by simp
next
  case (Cons p km)
  obtain old_key new_key where p: "p = (old_key, new_key)" by (cases p)
  show ?case
  proof (cases "map_of rate old_key")
    case None
    then have step: "map_keys (p # km) (JObj rate) acc = map_keys km (JObj rate) acc"
      by (simp add: p py_in_def has_key_map_of)
    from Cons.IH [of acc] obtain out where
      o: "map_keys km (JObj rate) acc = Inr out"
      and k: "set (map fst out) \<subseteq> set (map fst acc) \<union> set (map snd km)"
      and f: "\<forall>k. k \<notin> set (map snd km) \<longrightarrow> map_of out k = map_of acc k"
      and g: "distinct (map snd km) \<longrightarrow>
          (\<forall>p\<in>set km. map_of out (snd p) =
             (case map_of rate (fst p) of None \<Rightarrow> map_of acc (snd p) | Some v \<Rightarrow> Some v))"
      by blast
    have "distinct (map snd (p # km)) \<longrightarrow>
          (\<forall>q\<in>set (p # km). map_of out (snd q) =
             (case map_of rate (fst q) of None \<Rightarrow> map_of acc (snd q) | Some v \<Rightarrow> Some v))"
      using f g None by (auto simp: p)
    with o k f show ?thesis
      unfolding step by (auto simp: p)
  next
    case (Some v)
    define acc' where "acc' = dict_set acc new_key v"
    from Some have step: "map_keys (p # km) (JObj rate) acc = map_keys km (JObj rate) acc'"
      by (simp add: p py_in_def py_subscript_def has_key_map_of acc'_def)
    from Cons.IH [of acc'] obtain out where
      o: "map_keys km (JObj rate) acc' = Inr out"
      and k: "set (map fst out) \<subseteq> set (map fst acc') \<union> set (map snd km)"
      and f: "\<forall>k. k \<notin> set (map snd km) \<longrightarrow> map_of out k = map_of acc' k"
      and g: "distinct (map snd km) \<longrightarrow>
          (\<forall>p\<in>set km. map_of out (snd p) =
             (case map_of rate (fst p) of None \<Rightarrow> map_of acc' (snd p) | Some v \<Rightarrow> Some v))"
      by blast
    have k': "set (map fst out) \<subseteq> set (map fst acc) \<union> set (map snd (p # km))"
      using k by (auto simp: acc'_def keys_dict_set p)
    have f': "\<forall>k. k \<notin> set (map snd (p # km)) \<longrightarrow> map_of out k = map_of acc k"
      using f by (auto simp: acc'_def map_of_dict_set p)
    have g': "distinct (map snd (p # km)) \<longrightarrow>
          (\<forall>q\<in>set (p # km). map_of out (snd q) =
             (case map_of rate (fst q) of None \<Rightarrow> map_of acc (snd q) | Some v \<Rightarrow> Some v))"
    proof (intro impI ballI)
      fix q
      assume d: "distinct (map snd (p # km))" and q: "q \<in> set (p # km)"
      then have dk: "distinct (map snd km)" and nk: "new_key \<notin> set (map snd km)"
        by (simp_all add: p)
      show "map_of out (snd q) =
             (case map_of rate (fst q) of None \<Rightarrow> map_of acc (snd q) | Some v \<Rightarrow> Some v)"
      proof (cases "q = p")
        case True
        with f nk Some show ?thesis
          by (simp add: p acc'_def map_of_dict_set)
      next
        case False
        with q have qk: "q \<in> set km" by simp
        then have "snd q \<in> set (map snd km)" by simp
        with nk have "snd q \<noteq> new_key" by auto
        with g dk qk show ?thesis
          by (auto simp: acc'_def map_of_dict_set split: option.splits)
      qed
    qed
    from o k' f' g' show ?thesis
      unfolding step by blast
  qed
qed

lemma fx_rate_keys:
  assumes "map_of d ''Realtime Currency Exchange Rate'' = Some (JObj rate)"
  shows "\<exists>out. normalize_fx_rate_keys (JObj d) = Inr (JObj out)
     \<and> set (map fst out) \<subseteq> set (map snd key_mappings)
     \<and> (\<forall>p\<in>set key_mappings. map_of out (snd p) = map_of rate (fst p))"
proof -
  have hk: "has_key d ''Realtime Currency Exchange Rate''"
    and dg: "dict_get d ''Realtime Currency Exchange Rate'' JNull = JObj rate"
    using assms by (simp_all add: has_key_map_of dict_get_def)
  have dist: "distinct (map snd key_mappings)"
    by (simp add: key_mappings_def)
  define e :: "(string \<times> json) list" where "e = []"
  from map_keys_obj [of key_mappings rate e] obtain out where
    o: "map_keys key_mappings (JObj rate) e = Inr out"
    and k0: "set (map fst out) \<subseteq> set (map fst e) \<union> set (map snd key_mappings)"
    and g0: "distinct (map snd key_mappings) \<longrightarrow>
          (\<forall>p\<in>set key_mappings. map_of out (snd p) =
             (case map_of rate (fst p) of None \<Rightarrow> map_of e (snd p) | Some v \<Rightarrow> Some v))"
    by blast
  from k0 have k: "set (map fst out) \<subseteq> set (map snd key_mappings)"
    by (simp add: e_def)
  from g0 [rule_format, OF dist] have g: "map_of out (snd p) = map_of rate (fst p)"
    if "p \<in> set key_mappings" for p
    using that by (cases "map_of rate (fst p)") (simp_all add: e_def)
  have "normalize_fx_rate_keys (JObj d) = Inr (JObj out)"
    by (simp add: normalize_fx_rate_keys_def hk dg o [unfolded e_def] bind_err_def)
  moreover from g have "\<forall>p\<in>set key_mappings. map_of out (snd p) = map_of rate (fst p)"
    by (intro ballI)
  ultimately show ?thesis using k by (intro exI [of _ out] conjI)
qed

lemma fx_rate_example:
  "get_current_fx_rate
     (\<lambda>c. Inr (JObj [(''Realtime Currency Exchange Rate'',
                      JObj [(''1. From_Currency Code'', JStr ''USD''),
                            (''5. Exchange Rate'', JStr ''0.92'')])]))
     from_currency to_currency =
   ([\<lparr>callee = fetch_exchange_rate, args = [JStr from_currency, JStr to_currency], kwargs = []\<rparr>],
    Inr (JObj [(''from_currency_code'', JStr ''USD''), (''exchange_rate'', JStr ''0.92'')]))"
  by (simp add: get_current_fx_rate_def bind_io_def await_def lift_def normalize_fx_rate_keys_def
      has_key_def dict_get_def key_mappings_def py_in_def py_subscript_def bind_err_def)

lemma crypto_quote_Inr:
  assumes "normalize_crypto_quote loads symbol market data_str = Inr out"
  shows "\<exists>d key ts latest older m q.
       loads data_str = Inr (JObj d)
     \<and> find (\<lambda>key. str_contains key ''Time Series'' \<and> str_contains key ''Digital Currency'')
           (map fst d) = Some key
     \<and> dict_get d key JNull = JObj ts
     \<and> rev (sort (map fst ts)) = latest # older
     \<and> dict_get d ''Meta Data'' (JObj []) = JObj m
     \<and> dict_get ts latest JNull = JObj q
     \<and> out = JObj
           [(''symbol'', dict_get m ''2. Digital Currency Code'' (JStr symbol)),
            (''name'', dict_get m ''3. Digital Currency Name'' (JStr [])),
            (''market'', dict_get m ''4. Market Code'' (JStr market)),
            (''market_name'', dict_get m ''5. Market Name'' (JStr [])),
            (''last_refreshed'', dict_get m ''6. Last Refreshed'' (JStr [])),
            (''time_zone'', dict_get m ''7. Time Zone'' (JStr [])),
            (''current_quote'', JObj
              [(''date'', JStr latest),
               (''open'', dict_get q ''1. open'' (JStr [])),
               (''high'', dict_get q ''2. high'' (JStr [])),
               (''low'', dict_get q ''3. low'' (JStr [])),
               (''close'', dict_get q ''4. close'' (JStr [])),
               (''volume'', dict_get q ''5. volume'' (JStr []))])]"
proof -
  from assms obtain data where l: "loads data_str = Inr data"
    by (cases "loads data_str") (simp_all add: normalize_crypto_quote_def bind_err_def)
  from assms l obtain d where d: "data = JObj d"
    by (cases data) (simp_all add: normalize_crypto_quote_def bind_err_def py_get_default_def)
  define P where "P = (\<lambda>key. str_contains key ''Time Series'' \<and> str_contains key ''Digital Currency'')"
  define md where "md = dict_get d ''Meta Data'' (JObj [])"
  have body: "normalize_crypto_quote loads symbol market data_str =
       (case find P (map fst d) of
               None \<Rightarrow> Inl (ValueError ''Time series data not found in response'')
             | Some time_series_key \<Rightarrow>
                 (case dict_get d time_series_key JNull of
                    JObj time_series \<Rightarrow>
                      (case rev (sort (map fst time_series)) of
                         [] \<Rightarrow> Inl (ValueError ''No time series data available'')
                       | latest_date # older \<Rightarrow>
                           (case md of
                              JObj m \<Rightarrow>
                                (case dict_get time_series latest_date JNull of
                                   JObj latest_data \<Rightarrow>
                                     Inr (JObj
                                       [(''symbol'', dict_get m ''2. Digital Currency Code'' (JStr symbol)),
                                        (''name'', dict_get m ''3. Digital Currency Name'' (JStr [])),
                                        (''market'', dict_get m ''4. Market Code'' (JStr market)),
                                        (''market_name'', dict_get m ''5. Market Name'' (JStr [])),
                                        (''last_refreshed'', dict_get m ''6. Last Refreshed'' (JStr [])),
                                        (''time_zone'', dict_get m ''7. Time Zone'' (JStr [])),
                                        (''current_quote'', JObj
                                          [(''date'', JStr latest_date),
                                           (''open'', dict_get latest_data ''1. open'' (JStr [])),
                                           (''high'', dict_get latest_data ''2. high'' (JStr [])),
                                           (''low'', dict_get latest_data ''3. low'' (JStr [])),
                                           (''close'', dict_get latest_data ''4. close'' (JStr [])),
                                           (''volume'', dict_get latest_data ''5. volume'' (JStr []))])])
                                 | _ \<Rightarrow> Inl AttributeError)
                            | _ \<Rightarrow> Inl AttributeError))
                  | _ \<Rightarrow> Inl AttributeError))"
    unfolding normalize_crypto_quote_def P_def md_def
    by (simp add: l d bind_err_def py_get_default_def)
  from assms [unfolded body] obtain key where key: "find P (map fst d) = Some key"
    by (cases "find P (map fst d)") simp_all
  from assms [unfolded body key] obtain ts where ts: "dict_get d key JNull = JObj ts"
    by (cases "dict_get d key JNull") simp_all
  from assms [unfolded body key] ts obtain latest older where
    srt: "rev (sort (map fst ts)) = latest # older"
    by (cases "rev (sort (map fst ts))") simp_all
  from assms [unfolded body key] ts srt obtain m where m: "md = JObj m"
    by (cases md) simp_all
  from assms [unfolded body key] ts srt m obtain q where q: "dict_get ts latest JNull = JObj q"
    by (cases "dict_get ts latest JNull") simp_all
  from assms [unfolded body key] ts srt m q have out: "out = JObj
           [(''symbol'', dict_get m ''2. Digital Currency Code'' (JStr symbol)),
            (''name'', dict_get m ''3. Digital Currency Name'' (JStr [])),
            (''market'', dict_get m ''4. Market Code'' (JStr market)),
            (''market_name'', dict_get m ''5. Market Name'' (JStr [])),
            (''last_refreshed'', dict_get m ''6. Last Refreshed'' (JStr [])),
            (''time_zone'', dict_get m ''7. Time Zone'' (JStr [])),
            (''current_quote'', JObj
              [(''date'', JStr latest),
               (''open'', dict_get q ''1. open'' (JStr [])),
               (''high'', dict_get q ''2. high'' (JStr [])),
               (''low'', dict_get q ''3. low'' (JStr [])),
               (''close'', dict_get q ''4. close'' (JStr [])),
               (''volume'', dict_get q ''5. volume'' (JStr []))])]"
    by simp
  show ?thesis
    using l [unfolded d] key [unfolded P_def] ts srt m [unfolded md_def] q out
    by (intro exI conjI)
qed

subsection \<open>The crypto quote\<close>

lemma latest_first:
  fixes xs :: "string list"
  assumes "xs \<noteq> []"
  shows "\<exists>latest older. rev (sort xs) = latest # older \<and> latest \<in> set xs \<and> (\<forall>k\<in>set xs. k \<le> latest)"
proof -
  define ys where "ys = sort xs"
  have "length ys = length xs"
    by (simp add: ys_def)
  with assms have ne: "ys \<noteq> []"
    by auto
  have s: "sorted ys" and st: "set ys = set xs"
    by (simp_all add: ys_def)
  from ne have app: "ys = butlast ys @ [last ys]" by simp
  have "sorted (butlast ys @ [last ys])"
    using s app by simp
  then have le: "\<forall>k\<in>set (butlast ys). k \<le> last ys"
    by (simp add: sorted_append)
  have "\<forall>k\<in>set ys. k \<le> last ys"
  proof
    fix k assume "k \<in> set ys"
    then have "k \<in> set (butlast ys @ [last ys])" using app by simp
    with le show "k \<le> last ys" by auto
  qed
  moreover have "rev ys = last ys # rev (butlast ys)"
    using app by (metis rev_eq_Cons_iff rev_rev_ident)
  moreover have "last ys \<in> set xs"
    using ne st last_in_set by blast
  ultimately show ?thesis
    unfolding ys_def [symmetric] st [symmetric] by blast
qed

lemma crypto_quote_missing_container:
  assumes "loads data_str = Inr (JObj d)"
    and "\<forall>key\<in>set (map fst d). \<not> (str_contains key ''Time Series'' \<and> str_contains key ''Digital Currency'')"
  shows "normalize_crypto_quote loads symbol market data_str =
           Inl (ValueError ''Time series data not found in response'')"
proof -
  have "find (\<lambda>key. str_contains key ''Time Series'' \<and> str_contains key ''Digital Currency'')
          (map fst d) = None"
    using assms(2) by (simp add: find_None_iff)
  then show ?thesis
    by (simp add: normalize_crypto_quote_def assms(1) bind_err_def py_get_default_def)
qed

lemma latest_is_head:
  fixes xs :: "string list"
  assumes "latest \<in> set xs" and "\<forall>k\<in>set xs. k \<le> latest"
  shows "\<exists>older. rev (sort xs) = latest # older"
proof -
  from assms(1) have "xs \<noteq> []"
    by auto
  from latest_first [OF this] obtain l older where
    srt: "rev (sort xs) = l # older" and mem: "l \<in> set xs" and mx: "\<forall>k\<in>set xs. k \<le> l"
    by blast
  from assms(2) mem have "l \<le> latest"
    by (rule bspec)
  moreover from mx assms(1) have "latest \<le> l"
    by (rule bspec)
  ultimately have "l = latest"
    by (rule order_antisym)
  with srt show ?thesis
    by simp
qed

lemma crypto_quote_latest:
  assumes l: "loads data_str = Inr (JObj d)"
    and key: "find (\<lambda>key. str_contains key ''Time Series'' \<and> str_contains key ''Digital Currency'')
           (map fst d) = Some key"
    and ts: "map_of d key = Some (JObj ts)"
    and mem: "latest \<in> set (map fst ts)"
    and mx: "\<forall>k\<in>set (map fst ts). k \<le> latest"
  shows "normalize_crypto_quote loads symbol market data_str =
     (case dict_get d ''Meta Data'' (JObj []) of
        JObj m \<Rightarrow>
          (case dict_get ts latest JNull of
             JObj q \<Rightarrow>
               Inr (JObj
                 [(''symbol'', dict_get m ''2. Digital Currency Code'' (JStr symbol)),
                  (''name'', dict_get m ''3. Digital Currency Name'' (JStr [])),
                  (''market'', dict_get m ''4. Market Code'' (JStr market)),
                  (''market_name'', dict_get m ''5. Market Name'' (JStr [])),
                  (''last_refreshed'', dict_get m ''6. Last Refreshed'' (JStr [])),
                  (''time_zone'', dict_get m ''7. Time Zone'' (JStr [])),
                  (''current_quote'', JObj
                    [(''date'', JStr latest),
                     (''open'', dict_get q ''1. open'' (JStr [])),
                     (''high'', dict_get q ''2. high'' (JStr [])),
                     (''low'', dict_get q ''3. low'' (JStr [])),
                     (''close'', dict_get q ''4. close'' (JStr [])),
                     (''volume'', dict_get q ''5. volume'' (JStr []))])])
           | _ \<Rightarrow> Inl AttributeError)
      | _ \<Rightarrow> Inl AttributeError)"
proof -
  from latest_is_head [OF mem mx] obtain older where
    srt: "rev (sort (map fst ts)) = latest # older" ..
  have dk: "dict_get d key JNull = JObj ts"
    using ts by (simp add: dict_get_def)
  show ?thesis
    unfolding normalize_crypto_quote_def
    by (simp add: l bind_err_def py_get_default_def key dk srt)
qed

lemma crypto_quote_returns:
  assumes "loads data_str = Inr (JObj d)"
    and "find (\<lambda>key. str_contains key ''Time Series'' \<and> str_contains key ''Digital Currency'')
           (map fst d) = Some key"
    and "map_of d key = Some (JObj ts)"
    and "latest \<in> set (map fst ts)"
    and "\<forall>k\<in>set (map fst ts). k \<le> latest"
    and q: "map_of ts latest = Some (JObj q)"
    and m: "dict_get d ''Meta Data'' (JObj []) = JObj m"
  shows "normalize_crypto_quote loads symbol market data_str =
     Inr (JObj
       [(''symbol'', dict_get m ''2. Digital Currency Code'' (JStr symbol)),
        (''name'', dict_get m ''3. Digital Currency Name'' (JStr [])),
        (''market'', dict_get m ''4. Market Code'' (JStr market)),
        (''market_name'', dict_get m ''5. Market Name'' (JStr [])),
        (''last_refreshed'', dict_get m ''6. Last Refreshed'' (JStr [])),
        (''time_zone'', dict_get m ''7. Time Zone'' (JStr [])),
        (''current_quote'', JObj
          [(''date'', JStr latest),
           (''open'', dict_get q ''1. open'' (JStr [])),
           (''high'', dict_get q ''2. high'' (JStr [])),
           (''low'', dict_get q ''3. low'' (JStr [])),
           (''close'', dict_get q ''4. close'' (JStr [])),
           (''volume'', dict_get q ''5. volume'' (JStr []))])])"
proof -
  have e: "dict_get ts latest JNull = JObj q"
    using q by (simp add: dict_get_def)
  show ?thesis
    unfolding crypto_quote_latest [where loads = loads and data_str = data_str,
        OF assms(1) assms(2) assms(3) assms(4) assms(5)]
    by (simp add: m e)
qed

lemma crypto_quote_raises:
  assumes "loads data_str = Inr (JObj d)"
    and "find (\<lambda>key. str_contains key ''Time Series'' \<and> str_contains key ''Digital Currency'')
           (map fst d) = Some key"
    and "map_of d key = Some (JObj ts)"
    and "latest \<in> set (map fst ts)"
    and "\<forall>k\<in>set (map fst ts). k \<le> latest"
    and bad: "(map_of ts latest = Some v \<and> \<not> is_obj v)
            \<or> (map_of d ''Meta Data'' = Some x \<and> \<not> is_obj x)"
  shows "normalize_crypto_quote loads symbol market data_str = Inl AttributeError"
proof -
  define md where "md = dict_get d ''Meta Data'' (JObj [])"
  define e where "e = dict_get ts latest JNull"
  from bad have "\<not> is_obj e \<or> \<not> is_obj md"
    by (auto simp: e_def md_def dict_get_def)
  then have "(case md of
        JObj m \<Rightarrow>
          (case e of
             JObj q \<Rightarrow>
               Inr (JObj
                 [(''symbol'', dict_get m ''2. Digital Currency Code'' (JStr symbol)),
                  (''name'', dict_get m ''3. Digital Currency Name'' (JStr [])),
                  (''market'', dict_get m ''4. Market Code'' (JStr market)),
                  (''market_name'', dict_get m ''5. Market Name'' (JStr [])),
                  (''last_refreshed'', dict_get m ''6. Last Refreshed'' (JStr [])),
                  (''time_zone'', dict_get m ''7. Time Zone'' (JStr [])),
                  (''current_quote'', JObj
                    [(''date'', JStr latest),
                     (''open'', dict_get q ''1. open'' (JStr [])),
                     (''high'', dict_get q ''2. high'' (JStr [])),
                     (''low'', dict_get q ''3. low'' (JStr [])),
                     (''close'', dict_get q ''4. close'' (JStr [])),
                     (''volume'', dict_get q ''5. volume'' (JStr []))])])
           | _ \<Rightarrow> Inl AttributeError)
      | _ \<Rightarrow> Inl AttributeError) = (Inl AttributeError :: error + json)"
    by (cases md; cases e) (simp_all add: is_obj_def)
  then show ?thesis
    unfolding crypto_quote_latest [where loads = loads and data_str = data_str,
        OF assms(1) assms(2) assms(3) assms(4) assms(5)] md_def e_def .
qed


lemma crypto_handler_run:
  assumes "ds \<lparr>callee = fetch_digital_currency_daily, args = [JStr symbol, JStr market],
               kwargs = []\<rparr> = Inr (JStr data_str)"
  shows "get_current_crypto_quote loads ds symbol market =
         ([\<lparr>callee = fetch_digital_currency_daily, args = [JStr symbol, JStr market], kwargs = []\<rparr>],
          normalize_crypto_quote loads symbol market data_str)"
  by (simp add: get_current_crypto_quote_def bind_io_def await_def lift_def assms)

lemma sample_crypto_run:
  "normalize_crypto_quote (\<lambda>s. Inr sample_crypto_payload) ''BTC'' ''USD'' ''{}'' =
     Inr (JObj [(''symbol'', JStr ''BTC''), (''name'', JStr ''Bitcoin''), (''market'', JStr ''USD''),
                (''market_name'', JStr []), (''last_refreshed'', JStr []), (''time_zone'', JStr []),
                (''current_quote'',
                   JObj [(''date'', JStr ''2024-01-03''), (''open'', JStr []), (''high'', JStr []),
                         (''low'', JStr []), (''close'', JStr ''44000.0''), (''volume'', JStr [])])])"
  by (simp add: normalize_crypto_quote_def sample_crypto_payload_def bind_err_def py_get_default_def
      dict_get_def)

text \<open>
  Claim C9, amended. Let the Data Source answer the call of \<^verbatim>\<open>get_current_crypto_quote\<close>
  with text that decodes to a mapping. If no top-level key contains both \<^verbatim>\<open>Time Series\<close>
  and \<^verbatim>\<open>Digital Currency\<close>, the handler raises the \<^verbatim>\<open>ValueError\<close> "Time series data not
  found in response" and returns nothing. If such a key is present (the first one is
  taken), its value is a mapping and \<open>latest\<close> is the greatest of its date keys, then:
  when the entry of \<open>latest\<close> is a mapping and \<^verbatim>\<open>Meta Data\<close> is a mapping or absent, the
  handler returns the normalized quote of \<open>latest\<close>, every field read from \<^verbatim>\<open>Meta Data\<close>
  and from that entry with its default, whatever the entries of the older dates are;
  when the entry of \<open>latest\<close> is not a mapping, or \<^verbatim>\<open>Meta Data\<close> is present and not a
  mapping, the handler raises \<^verbatim>\<open>AttributeError\<close> and returns nothing.
\<close>

theorem crypto_quote_container:
  assumes "loads data_str = Inr (JObj d)"
    and "ds \<lparr>callee = fetch_digital_currency_daily, args = [JStr symbol, JStr market],
               kwargs = []\<rparr> = Inr (JStr data_str)"
  shows
   "((\<forall>key\<in>set (map fst d).
         \<not> (str_contains key ''Time Series'' \<and> str_contains key ''Digital Currency'')) \<longrightarrow>
       snd (get_current_crypto_quote loads ds symbol market) =
         Inl (ValueError ''Time series data not found in response''))
  \<and> (find (\<lambda>key. str_contains key ''Time Series'' \<and> str_contains key ''Digital Currency'')
           (map fst d) = Some key
        \<and> map_of d key = Some (JObj ts)
        \<and> latest \<in> set (map fst ts) \<and> (\<forall>k\<in>set (map fst ts). k \<le> latest) \<longrightarrow>
       (map_of ts latest = Some (JObj q) \<and> dict_get d ''Meta Data'' (JObj []) = JObj m \<longrightarrow>
          snd (get_current_crypto_quote loads ds symbol market) =
            Inr (JObj
              [(''symbol'', dict_get m ''2. Digital Currency Code'' (JStr symbol)),
               (''name'', dict_get m ''3. Digital Currency Name'' (JStr [])),
               (''market'', dict_get m ''4. Market Code'' (JStr market)),
               (''market_name'', dict_get m ''5. Market Name'' (JStr [])),
               (''last_refreshed'', dict_get m ''6. Last Refreshed'' (JStr [])),
               (''time_zone'', dict_get m ''7. Time Zone'' (JStr [])),
               (''current_quote'', JObj
                 [(''date'', JStr latest),
                  (''open'', dict_get q ''1. open'' (JStr [])),
                  (''high'', dict_get q ''2. high'' (JStr [])),
                  (''low'', dict_get q ''3. low'' (JStr [])),
                  (''close'', dict_get q ''4. close'' (JStr [])),
                  (''volume'', dict_get q ''5. volume'' (JStr []))])]))
     \<and> ((map_of ts latest = Some v \<and> \<not> is_obj v)
          \<or> (map_of d ''Meta Data'' = Some x \<and> \<not> is_obj x) \<longrightarrow>
          snd (get_current_crypto_quote loads ds symbol market) = Inl AttributeError))"
proof -
  have r: "snd (get_current_crypto_quote loads ds symbol market) =
           normalize_crypto_quote loads symbol market data_str"
    unfolding crypto_handler_run [where ds = ds and loads = loads, OF assms(2)] by simp
  show ?thesis
    unfolding r
  proof (intro conjI impI)
    assume "\<forall>key\<in>set (map fst d).
         \<not> (str_contains key ''Time Series'' \<and> str_contains key ''Digital Currency'')"
    then show "normalize_crypto_quote loads symbol market data_str =
         Inl (ValueError ''Time series data not found in response'')"
      by (rule crypto_quote_missing_container [where loads = loads and data_str = data_str,
            OF assms(1)])
  next
    assume h: "find (\<lambda>key. str_contains key ''Time Series'' \<and> str_contains key ''Digital Currency'')
           (map fst d) = Some key
        \<and> map_of d key = Some (JObj ts)
        \<and> latest \<in> set (map fst ts) \<and> (\<forall>k\<in>set (map fst ts). k \<le> latest)"
      and g: "map_of ts latest = Some (JObj q) \<and> dict_get d ''Meta Data'' (JObj []) = JObj m"
    from h have h1: "find (\<lambda>key. str_contains key ''Time Series'' \<and> str_contains key ''Digital Currency'')
           (map fst d) = Some key" and h2: "map_of d key = Some (JObj ts)"
      and h3: "latest \<in> set (map fst ts)" and h4: "\<forall>k\<in>set (map fst ts). k \<le> latest"
      by simp_all
    from g have g1: "map_of ts latest = Some (JObj q)"
      and g2: "dict_get d ''Meta Data'' (JObj []) = JObj m"
      by simp_all
    show "normalize_crypto_quote loads symbol market data_str =
            Inr (JObj
              [(''symbol'', dict_get m ''2. Digital Currency Code'' (JStr symbol)),
               (''name'', dict_get m ''3. Digital Currency Name'' (JStr [])),
               (''market'', dict_get m ''4. Market Code'' (JStr market)),
               (''market_name'', dict_get m ''5. Market Name'' (JStr [])),
               (''last_refreshed'', dict_get m ''6. Last Refreshed'' (JStr [])),
               (''time_zone'', dict_get m ''7. Time Zone'' (JStr [])),
               (''current_quote'', JObj
                 [(''date'', JStr latest),
                  (''open'', dict_get q ''1. open'' (JStr [])),
                  (''high'', dict_get q ''2. high'' (JStr [])),
                  (''low'', dict_get q ''3. low'' (JStr [])),
                  (''close'', dict_get q ''4. close'' (JStr [])),
                  (''volume'', dict_get q ''5. volume'' (JStr []))])])"
      by (rule crypto_quote_returns [where loads = loads and data_str = data_str,
            OF assms(1) h1 h2 h3 h4 g1 g2])
  next
    assume h: "find (\<lambda>key. str_contains key ''Time Series'' \<and> str_contains key ''Digital Currency'')
           (map fst d) = Some key
        \<and> map_of d key = Some (JObj ts)
        \<and> latest \<in> set (map fst ts) \<and> (\<forall>k\<in>set (map fst ts). k \<le> latest)"
      and bad: "(map_of ts latest = Some v \<and> \<not> is_obj v)
          \<or> (map_of d ''Meta Data'' = Some x \<and> \<not> is_obj x)"
    from h have h1: "find (\<lambda>key. str_contains key ''Time Series'' \<and> str_contains key ''Digital Currency'')
           (map fst d) = Some key" and h2: "map_of d key = Some (JObj ts)"
      and h3: "latest \<in> set (map fst ts)" and h4: "\<forall>k\<in>set (map fst ts). k \<le> latest"
      by simp_all
    show "normalize_crypto_quote loads symbol market data_str = Inl AttributeError"
      by (rule crypto_quote_raises [where loads = loads and data_str = data_str,
            OF assms(1) h1 h2 h3 h4 bad])
  qed
qed

theorem crypto_quote_container_witness:
  "snd (get_current_crypto_quote (\<lambda>s. Inr (JObj [(''Note'', JStr ''rate limit reached'')]))
          (\<lambda>c. Inr (JStr ''{}'')) ''BTC'' ''USD'') =
     Inl (ValueError ''Time series data not found in response'')
   \<and> snd (get_current_crypto_quote (\<lambda>s. Inr sample_crypto_payload)
            (\<lambda>c. Inr (JStr ''{}'')) ''BTC'' ''USD'') =
     Inr (JObj [(''symbol'', JStr ''BTC''), (''name'', JStr ''Bitcoin''), (''market'', JStr ''USD''),
                (''market_name'', JStr []), (''last_refreshed'', JStr []), (''time_zone'', JStr []),
                (''current_quote'',
                   JObj [(''date'', JStr ''2024-01-03''), (''open'', JStr []), (''high'', JStr []),
                         (''low'', JStr []), (''close'', JStr ''44000.0''), (''volume'', JStr [])])])
   \<and> snd (get_current_crypto_quote
            (\<lambda>s. Inr (JObj [(''Time Series (Digital Currency Daily)'',
                             JObj [(''2024-01-01'', JNull),
                                   (''2024-01-02'', JObj [(''4. close'', JStr ''43000.0'')])])]))
            (\<lambda>c. Inr (JStr ''{}'')) ''ETH'' ''EUR'') =
     Inr (JObj [(''symbol'', JStr ''ETH''), (''name'', JStr []), (''market'', JStr ''EUR''),
                (''market_name'', JStr []), (''last_refreshed'', JStr []), (''time_zone'', JStr []),
                (''current_quote'',
                   JObj [(''date'', JStr ''2024-01-02''), (''open'', JStr []), (''high'', JStr []),
                         (''low'', JStr []), (''close'', JStr ''43000.0''), (''volume'', JStr [])])])
   \<and> snd (get_current_crypto_quote
            (\<lambda>s. Inr (JObj [(''Time Series (Digital Currency Daily)'',
                             JObj [(''2024-01-01'', JObj [(''4. close'', JStr ''41000.0'')]),
                                   (''2024-01-02'', JStr ''n/a'')])]))
            (\<lambda>c. Inr (JStr ''{}'')) ''ETH'' ''EUR'') = Inl AttributeError"
proof -
  have a: "snd (get_current_crypto_quote (\<lambda>s. Inr (JObj [(''Note'', JStr ''rate limit reached'')]))
          (\<lambda>c. Inr (JStr ''{}'')) ''BTC'' ''USD'') =
     Inl (ValueError ''Time series data not found in response'')"
    using crypto_quote_container [where loads = "\<lambda>s. Inr (JObj [(''Note'', JStr ''rate limit reached'')])"
        and data_str = "''{}''" and d = "[(''Note'', JStr ''rate limit reached'')]"
        and ds = "\<lambda>c. Inr (JStr ''{}'')" and symbol = "''BTC''" and market = "''USD''"]
    by simp
  define ts where "ts =
     [(''2024-01-02'', JObj [(''1. open'', JStr ''42000.0''), (''4. close'', JStr ''43000.0'')]),
      (''2024-01-03'', JObj [(''4. close'', JStr ''44000.0'')]),
      (''2024-01-01'', JObj [(''4. close'', JStr ''41000.0'')])]"
  define md where "md = [(''2. Digital Currency Code'', JStr ''BTC''),
                         (''3. Digital Currency Name'', JStr ''Bitcoin'')]"
  define d where "d = [(''Meta Data'', JObj md), (''Time Series (Digital Currency Daily)'', JObj ts)]"
  have p: "(Inr sample_crypto_payload :: error + json) = Inr (JObj d)"
    by (simp add: sample_crypto_payload_def d_def ts_def md_def)
  have h: "find (\<lambda>key. str_contains key ''Time Series'' \<and> str_contains key ''Digital Currency'')
           (map fst d) = Some ''Time Series (Digital Currency Daily)''
        \<and> map_of d ''Time Series (Digital Currency Daily)'' = Some (JObj ts)
        \<and> ''2024-01-03'' \<in> set (map fst ts) \<and> (\<forall>k\<in>set (map fst ts). k \<le> ''2024-01-03'')"
    by (simp add: d_def ts_def)
  have g: "map_of ts ''2024-01-03'' = Some (JObj [(''4. close'', JStr ''44000.0'')])
         \<and> dict_get d ''Meta Data'' (JObj []) = JObj md"
    by (simp add: d_def ts_def dict_get_def)
  have b: "snd (get_current_crypto_quote (\<lambda>s. Inr sample_crypto_payload)
            (\<lambda>c. Inr (JStr ''{}'')) ''BTC'' ''USD'') =
     Inr (JObj [(''symbol'', JStr ''BTC''), (''name'', JStr ''Bitcoin''), (''market'', JStr ''USD''),
                (''market_name'', JStr []), (''last_refreshed'', JStr []), (''time_zone'', JStr []),
                (''current_quote'',
                   JObj [(''date'', JStr ''2024-01-03''), (''open'', JStr []), (''high'', JStr []),
                         (''low'', JStr []), (''close'', JStr ''44000.0''), (''volume'', JStr [])])])"
    using crypto_quote_container [where loads = "\<lambda>s. Inr sample_crypto_payload"
        and data_str = "''{}''" and d = d and ds = "\<lambda>c. Inr (JStr ''{}'')" and symbol = "''BTC''"
        and market = "''USD''" and key = "''Time Series (Digital Currency Daily)''" and ts = ts
        and latest = "''2024-01-03''" and q = "[(''4. close'', JStr ''44000.0'')]" and m = md,
        OF p refl, THEN conjunct2, rule_format, OF h, THEN conjunct1, rule_format, OF g]
    by (simp add: md_def dict_get_def)
  define ts2 where "ts2 =
     [(''2024-01-01'', JNull), (''2024-01-02'', JObj [(''4. close'', JStr ''43000.0'')])]"
  define d2 where "d2 = [(''Time Series (Digital Currency Daily)'', JObj ts2)]"
  have h2: "find (\<lambda>key. str_contains key ''Time Series'' \<and> str_contains key ''Digital Currency'')
           (map fst d2) = Some ''Time Series (Digital Currency Daily)''
        \<and> map_of d2 ''Time Series (Digital Currency Daily)'' = Some (JObj ts2)
        \<and> ''2024-01-02'' \<in> set (map fst ts2) \<and> (\<forall>k\<in>set (map fst ts2). k \<le> ''2024-01-02'')"
    by (simp add: d2_def ts2_def)
  have g2: "map_of ts2 ''2024-01-02'' = Some (JObj [(''4. close'', JStr ''43000.0'')])
         \<and> dict_get d2 ''Meta Data'' (JObj []) = JObj []"
    by (simp add: d2_def ts2_def dict_get_def)
  have c: "snd (get_current_crypto_quote (\<lambda>s. Inr (JObj d2))
            (\<lambda>c. Inr (JStr ''{}'')) ''ETH'' ''EUR'') =
     Inr (JObj [(''symbol'', JStr ''ETH''), (''name'', JStr []), (''market'', JStr ''EUR''),
                (''market_name'', JStr []), (''last_refreshed'', JStr []), (''time_zone'', JStr []),
                (''current_quote'',
                   JObj [(''date'', JStr ''2024-01-02''), (''open'', JStr []), (''high'', JStr []),
                         (''low'', JStr []), (''close'', JStr ''43000.0''), (''volume'', JStr [])])])"
    using crypto_quote_container [where loads = "\<lambda>s. Inr (JObj d2)"
        and data_str = "''{}''" and d = d2 and ds = "\<lambda>c. Inr (JStr ''{}'')" and symbol = "''ETH''"
        and market = "''EUR''" and key = "''Time Series (Digital Currency Daily)''" and ts = ts2
        and latest = "''2024-01-02''" and q = "[(''4. close'', JStr ''43000.0'')]"
        and m = "[]",
        OF refl refl, THEN conjunct2, rule_format, OF h2, THEN conjunct1, rule_format, OF g2]
    by (simp add: dict_get_def)
  define ts3 where "ts3 =
     [(''2024-01-01'', JObj [(''4. close'', JStr ''41000.0'')]), (''2024-01-02'', JStr ''n/a'')]"
  define d3 where "d3 = [(''Time Series (Digital Currency Daily)'', JObj ts3)]"
  have h3: "find (\<lambda>key. str_contains key ''Time Series'' \<and> str_contains key ''Digital Currency'')
           (map fst d3) = Some ''Time Series (Digital Currency Daily)''
        \<and> map_of d3 ''Time Series (Digital Currency Daily)'' = Some (JObj ts3)
        \<and> ''2024-01-02'' \<in> set (map fst ts3) \<and> (\<forall>k\<in>set (map fst ts3). k \<le> ''2024-01-02'')"
    by (simp add: d3_def ts3_def)
  have g3: "(map_of ts3 ''2024-01-02'' = Some (JStr ''n/a'') \<and> \<not> is_obj (JStr ''n/a''))
          \<or> (map_of d3 ''Meta Data'' = Some JNull \<and> \<not> is_obj JNull)"
    by (simp add: ts3_def is_obj_def)
  have e: "snd (get_current_crypto_quote (\<lambda>s. Inr (JObj d3))
            (\<lambda>c. Inr (JStr ''{}'')) ''ETH'' ''EUR'') = Inl AttributeError"
    using crypto_quote_container [where loads = "\<lambda>s. Inr (JObj d3)"
        and data_str = "''{}''" and d = d3 and ds = "\<lambda>c. Inr (JStr ''{}'')" and symbol = "''ETH''"
        and market = "''EUR''" and key = "''Time Series (Digital Currency Daily)''" and ts = ts3
        and latest = "''2024-01-02''" and v = "JStr ''n/a''" and x = JNull,
        OF refl refl, THEN conjunct2, rule_format, OF h3, THEN conjunct2, rule_format, OF g3] .
  from a b c [unfolded d2_def ts2_def] e [unfolded d3_def ts3_def] show ?thesis
    by (intro conjI)
qed

text \<open>
  Claim C9 as the specification words it has the handler return, and not raise, whenever
  the container is present with at least one date entry. The handler reads the fields of
  the latest entry with \<^verbatim>\<open>latest_data.get\<close> (line 1232) and those of \<^verbatim>\<open>Meta Data\<close> with
  \<^verbatim>\<open>metadata.get\<close> (line 1221): with the container present and one date entry, it raises
  \<^verbatim>\<open>AttributeError\<close> when that entry is \<^verbatim>\<open>null\<close>, and when \<^verbatim>\<open>Meta Data\<close> is a string.
\<close>

theorem crypto_quote_entry_counterexample:
  "snd (get_current_crypto_quote
          (\<lambda>s. Inr (JObj [(''Time Series (Digital Currency Daily)'',
                           JObj [(''2024-01-02'', JNull)])]))
          (\<lambda>c. Inr (JStr ''{}'')) ''BTC'' ''USD'') = Inl AttributeError
   \<and> snd (get_current_crypto_quote
          (\<lambda>s. Inr (JObj [(''Meta Data'', JStr ''unavailable''),
                           (''Time Series (Digital Currency Daily)'',
                            JObj [(''2024-01-02'', JObj [(''4. close'', JStr ''43000.0'')])])]))
          (\<lambda>c. Inr (JStr ''{}'')) ''BTC'' ''USD'') = Inl AttributeError"
  by (simp add: get_current_crypto_quote_def bind_io_def await_def lift_def
      normalize_crypto_quote_def bind_err_def py_get_default_def dict_get_def)

text \<open>
  Claim C7, amended. When the payload of \<^verbatim>\<open>get_current_fx_rate\<close> is a mapping whose
  \<^verbatim>\<open>Realtime Currency Exchange Rate\<close> entry is a mapping, the output keys are drawn only
  from the nine canonical names, and each canonical key is present exactly when its
  upstream key is, with the upstream value (no null, no placeholder); the payload of the
  specification's example yields exactly the two keys given there. A record returned by
  \<^verbatim>\<open>normalize_crypto_quote\<close> is built from the decoded payload \<open>d\<close>, from \<open>m\<close>, its
  \<^verbatim>\<open>Meta Data\<close> mapping (the empty mapping when \<^verbatim>\<open>Meta Data\<close> is absent), and from \<open>q\<close>, the
  entry of the latest date of its time series container. It has exactly the seven fixed
  keys, and its \<^verbatim>\<open>current_quote\<close> exactly the six fixed keys. Each field has the value of
  its upstream key in \<open>m\<close> or \<open>q\<close> when that key is present, and its default when it is
  absent: the requested symbol for \<^verbatim>\<open>symbol\<close>, the requested market for \<^verbatim>\<open>market\<close>,
  the empty string for \<^verbatim>\<open>name\<close>, \<^verbatim>\<open>market_name\<close>, \<^verbatim>\<open>last_refreshed\<close>, \<^verbatim>\<open>time_zone\<close>,
  \<^verbatim>\<open>open\<close>, \<^verbatim>\<open>high\<close>, \<^verbatim>\<open>low\<close>, \<^verbatim>\<open>close\<close> and \<^verbatim>\<open>volume\<close>; \<^verbatim>\<open>date\<close> is the latest
  date. So an absent upstream field is not omitted from the record.
\<close>

theorem key_normalizers_schema:
  "(map_of d ''Realtime Currency Exchange Rate'' = Some (JObj rate) \<longrightarrow>
      (\<exists>out. normalize_fx_rate_keys (JObj d) = Inr (JObj out)
         \<and> set (map fst out) \<subseteq>
              {''from_currency_code'', ''from_currency_name'', ''to_currency_code'',
               ''to_currency_name'', ''exchange_rate'', ''last_refreshed'', ''time_zone'',
               ''bid_price'', ''ask_price''}
         \<and> (\<forall>p\<in>set key_mappings. map_of out (snd p) = map_of rate (fst p))))
   \<and> snd (get_current_fx_rate
        (\<lambda>c. Inr (JObj [(''Realtime Currency Exchange Rate'',
                         JObj [(''1. From_Currency Code'', JStr ''USD''),
                               (''5. Exchange Rate'', JStr ''0.92'')])]))
        from_currency to_currency) =
      Inr (JObj [(''from_currency_code'', JStr ''USD''), (''exchange_rate'', JStr ''0.92'')])
   \<and> (normalize_crypto_quote loads symbol market data_str = Inr result \<longrightarrow>
      (\<exists>p key ts latest older m q flds quote.
           loads data_str = Inr (JObj p)
         \<and> find (\<lambda>key. str_contains key ''Time Series'' \<and> str_contains key ''Digital Currency'')
             (map fst p) = Some key
         \<and> dict_get p key JNull = JObj ts
         \<and> rev (sort (map fst ts)) = latest # older
         \<and> dict_get p ''Meta Data'' (JObj []) = JObj m
         \<and> dict_get ts latest JNull = JObj q
         \<and> result = JObj flds
         \<and> flds =
             [(''symbol'',
                 (case map_of m ''2. Digital Currency Code'' of None \<Rightarrow> JStr symbol | Some v \<Rightarrow> v)),
              (''name'',
                 (case map_of m ''3. Digital Currency Name'' of None \<Rightarrow> JStr [] | Some v \<Rightarrow> v)),
              (''market'',
                 (case map_of m ''4. Market Code'' of None \<Rightarrow> JStr market | Some v \<Rightarrow> v)),
              (''market_name'',
                 (case map_of m ''5. Market Name'' of None \<Rightarrow> JStr [] | Some v \<Rightarrow> v)),
              (''last_refreshed'',
                 (case map_of m ''6. Last Refreshed'' of None \<Rightarrow> JStr [] | Some v \<Rightarrow> v)),
              (''time_zone'',
                 (case map_of m ''7. Time Zone'' of None \<Rightarrow> JStr [] | Some v \<Rightarrow> v)),
              (''current_quote'', JObj quote)]
         \<and> quote =
             [(''date'', JStr latest),
              (''open'', (case map_of q ''1. open'' of None \<Rightarrow> JStr [] | Some v \<Rightarrow> v)),
              (''high'', (case map_of q ''2. high'' of None \<Rightarrow> JStr [] | Some v \<Rightarrow> v)),
              (''low'', (case map_of q ''3. low'' of None \<Rightarrow> JStr [] | Some v \<Rightarrow> v)),
              (''close'', (case map_of q ''4. close'' of None \<Rightarrow> JStr [] | Some v \<Rightarrow> v)),
              (''volume'', (case map_of q ''5. volume'' of None \<Rightarrow> JStr [] | Some v \<Rightarrow> v))]
         \<and> map fst flds = [''symbol'', ''name'', ''market'', ''market_name'', ''last_refreshed'',
                           ''time_zone'', ''current_quote'']
         \<and> map fst quote = [''date'', ''open'', ''high'', ''low'', ''close'', ''volume'']))"
proof (intro conjI impI)
  assume a: "map_of d ''Realtime Currency Exchange Rate'' = Some (JObj rate)"
  have ks: "set (map snd key_mappings) =
              {''from_currency_code'', ''from_currency_name'', ''to_currency_code'',
               ''to_currency_name'', ''exchange_rate'', ''last_refreshed'', ''time_zone'',
               ''bid_price'', ''ask_price''}"
    by (simp add: key_mappings_def)
  from fx_rate_keys [OF a] show "\<exists>out. normalize_fx_rate_keys (JObj d) = Inr (JObj out)
         \<and> set (map fst out) \<subseteq>
              {''from_currency_code'', ''from_currency_name'', ''to_currency_code'',
               ''to_currency_name'', ''exchange_rate'', ''last_refreshed'', ''time_zone'',
               ''bid_price'', ''ask_price''}
         \<and> (\<forall>p\<in>set key_mappings. map_of out (snd p) = map_of rate (fst p))"
    unfolding ks .
next
  show "snd (get_current_fx_rate
        (\<lambda>c. Inr (JObj [(''Realtime Currency Exchange Rate'',
                         JObj [(''1. From_Currency Code'', JStr ''USD''),
                               (''5. Exchange Rate'', JStr ''0.92'')])]))
        from_currency to_currency) =
      Inr (JObj [(''from_currency_code'', JStr ''USD''), (''exchange_rate'', JStr ''0.92'')])"
    unfolding fx_rate_example by simp
next
  assume "normalize_crypto_quote loads symbol market data_str = Inr result"
  from crypto_quote_Inr [OF this] obtain p key ts latest older m q where
    l: "loads data_str = Inr (JObj p)"
    and key: "find (\<lambda>key. str_contains key ''Time Series'' \<and> str_contains key ''Digital Currency'')
             (map fst p) = Some key"
    and ts: "dict_get p key JNull = JObj ts"
    and srt: "rev (sort (map fst ts)) = latest # older"
    and m: "dict_get p ''Meta Data'' (JObj []) = JObj m"
    and q: "dict_get ts latest JNull = JObj q"
    and out: "result = JObj
           [(''symbol'', dict_get m ''2. Digital Currency Code'' (JStr symbol)),
            (''name'', dict_get m ''3. Digital Currency Name'' (JStr [])),
            (''market'', dict_get m ''4. Market Code'' (JStr market)),
            (''market_name'', dict_get m ''5. Market Name'' (JStr [])),
            (''last_refreshed'', dict_get m ''6. Last Refreshed'' (JStr [])),
            (''time_zone'', dict_get m ''7. Time Zone'' (JStr [])),
            (''current_quote'', JObj
              [(''date'', JStr latest),
               (''open'', dict_get q ''1. open'' (JStr [])),
               (''high'', dict_get q ''2. high'' (JStr [])),
               (''low'', dict_get q ''3. low'' (JStr [])),
               (''close'', dict_get q ''4. close'' (JStr [])),
               (''volume'', dict_get q ''5. volume'' (JStr []))])]"
    by (elim exE conjE)
  define quote where "quote =
             [(''date'', JStr latest),
              (''open'', (case map_of q ''1. open'' of None \<Rightarrow> JStr [] | Some v \<Rightarrow> v)),
              (''high'', (case map_of q ''2. high'' of None \<Rightarrow> JStr [] | Some v \<Rightarrow> v)),
              (''low'', (case map_of q ''3. low'' of None \<Rightarrow> JStr [] | Some v \<Rightarrow> v)),
              (''close'', (case map_of q ''4. close'' of None \<Rightarrow> JStr [] | Some v \<Rightarrow> v)),
              (''volume'', (case map_of q ''5. volume'' of None \<Rightarrow> JStr [] | Some v \<Rightarrow> v))]"
  define flds where "flds =
             [(''symbol'',
                 (case map_of m ''2. Digital Currency Code'' of None \<Rightarrow> JStr symbol | Some v \<Rightarrow> v)),
              (''name'',
                 (case map_of m ''3. Digital Currency Name'' of None \<Rightarrow> JStr [] | Some v \<Rightarrow> v)),
              (''market'',
                 (case map_of m ''4. Market Code'' of None \<Rightarrow> JStr market | Some v \<Rightarrow> v)),
              (''market_name'',
                 (case map_of m ''5. Market Name'' of None \<Rightarrow> JStr [] | Some v \<Rightarrow> v)),
              (''last_refreshed'',
                 (case map_of m ''6. Last Refreshed'' of None \<Rightarrow> JStr [] | Some v \<Rightarrow> v)),
              (''time_zone'',
                 (case map_of m ''7. Time Zone'' of None \<Rightarrow> JStr [] | Some v \<Rightarrow> v)),
              (''current_quote'', JObj quote)]"
  have r: "result = JObj flds"
    unfolding out flds_def quote_def dict_get_def ..
  have k1: "map fst flds = [''symbol'', ''name'', ''market'', ''market_name'', ''last_refreshed'',
                           ''time_zone'', ''current_quote'']"
    by (simp add: flds_def)
  have k2: "map fst quote = [''date'', ''open'', ''high'', ''low'', ''close'', ''volume'']"
    by (simp add: quote_def)
  show "\<exists>p key ts latest older m q flds quote.
           loads data_str = Inr (JObj p)
         \<and> find (\<lambda>key. str_contains key ''Time Series'' \<and> str_contains key ''Digital Currency'')
             (map fst p) = Some key
         \<and> dict_get p key JNull = JObj ts
         \<and> rev (sort (map fst ts)) = latest # older
         \<and> dict_get p ''Meta Data'' (JObj []) = JObj m
         \<and> dict_get ts latest JNull = JObj q
         \<and> result = JObj flds
         \<and> flds =
             [(''symbol'',
                 (case map_of m ''2. Digital Currency Code'' of None \<Rightarrow> JStr symbol | Some v \<Rightarrow> v)),
              (''name'',
                 (case map_of m ''3. Digital Currency Name'' of None \<Rightarrow> JStr [] | Some v \<Rightarrow> v)),
              (''market'',
                 (case map_of m ''4. Market Code'' of None \<Rightarrow> JStr market | Some v \<Rightarrow> v)),
              (''market_name'',
                 (case map_of m ''5. Market Name'' of None \<Rightarrow> JStr [] | Some v \<Rightarrow> v)),
              (''last_refreshed'',
                 (case map_of m ''6. Last Refreshed'' of None \<Rightarrow> JStr [] | Some v \<Rightarrow> v)),
              (''time_zone'',
                 (case map_of m ''7. Time Zone'' of None \<Rightarrow> JStr [] | Some v \<Rightarrow> v)),
              (''current_quote'', JObj quote)]
         \<and> quote =
             [(''date'', JStr latest),
              (''open'', (case map_of q ''1. open'' of None \<Rightarrow> JStr [] | Some v \<Rightarrow> v)),
              (''high'', (case map_of q ''2. high'' of None \<Rightarrow> JStr [] | Some v \<Rightarrow> v)),
              (''low'', (case map_of q ''3. low'' of None \<Rightarrow> JStr [] | Some v \<Rightarrow> v)),
              (''close'', (case map_of q ''4. close'' of None \<Rightarrow> JStr [] | Some v \<Rightarrow> v)),
              (''volume'', (case map_of q ''5. volume'' of None \<Rightarrow> JStr [] | Some v \<Rightarrow> v))]
         \<and> map fst flds = [''symbol'', ''name'', ''market'', ''market_name'', ''last_refreshed'',
                           ''time_zone'', ''current_quote'']
         \<and> map fst quote = [''date'', ''open'', ''high'', ''low'', ''close'', ''volume'']"
    using l key ts srt m q r flds_def quote_def k1 k2
    by (intro exI conjI)
qed

theorem key_normalizers_schema_witness:
  "(\<exists>out. normalize_fx_rate_keys
            (JObj [(''Realtime Currency Exchange Rate'',
                    JObj [(''5. Exchange Rate'', JStr ''0.92''), (''10. Unknown'', JNull)])]) =
            Inr (JObj out)
        \<and> map_of out ''exchange_rate'' = Some (JStr ''0.92'')
        \<and> map_of out ''bid_price'' = None
        \<and> ''10. Unknown'' \<notin> set (map fst out))
   \<and> (\<exists>flds. normalize_crypto_quote (\<lambda>s. Inr sample_crypto_payload) ''BTC'' ''USD'' ''{}'' =
                 Inr (JObj flds)
        \<and> map fst flds = [''symbol'', ''name'', ''market'', ''market_name'', ''last_refreshed'',
                          ''time_zone'', ''current_quote''])"
proof -
  define rate where "rate = [(''5. Exchange Rate'', JStr ''0.92''), (''10. Unknown'', JNull)]"
  define d where "d = [(''Realtime Currency Exchange Rate'', JObj rate)]"
  note t = key_normalizers_schema [where d = d and rate = rate
      and loads = "\<lambda>s. Inr sample_crypto_payload" and symbol = "''BTC''" and market = "''USD''"
      and data_str = "''{}''"]
  have c: "map_of d ''Realtime Currency Exchange Rate'' = Some (JObj rate)"
    by (simp add: d_def)
  from t [THEN conjunct1, rule_format, OF c] obtain out where
    o: "normalize_fx_rate_keys (JObj d) = Inr (JObj out)"
    and k: "set (map fst out) \<subseteq>
              {''from_currency_code'', ''from_currency_name'', ''to_currency_code'',
               ''to_currency_name'', ''exchange_rate'', ''last_refreshed'', ''time_zone'',
               ''bid_price'', ''ask_price''}"
    and g: "\<forall>p\<in>set key_mappings. map_of out (snd p) = map_of rate (fst p)"
    by (elim exE conjE)
  have m1: "(''5. Exchange Rate'', ''exchange_rate'') \<in> set key_mappings"
    and m2: "(''8. Bid Price'', ''bid_price'') \<in> set key_mappings"
    by (simp_all add: key_mappings_def)
  have v: "map_of out ''exchange_rate'' = map_of rate ''5. Exchange Rate''"
    "map_of out ''bid_price'' = map_of rate ''8. Bid Price''"
    using g [rule_format, OF m1] g [rule_format, OF m2] by simp_all
  have u: "''10. Unknown'' \<notin> set (map fst out)"
  proof
    assume "''10. Unknown'' \<in> set (map fst out)"
    then have "''10. Unknown'' \<in>
              {''from_currency_code'', ''from_currency_name'', ''to_currency_code'',
               ''to_currency_name'', ''exchange_rate'', ''last_refreshed'', ''time_zone'',
               ''bid_price'', ''ask_price''}"
      using k by (rule subsetD [rotated])
    then show False by simp
  qed
  from v have v': "map_of out ''exchange_rate'' = Some (JStr ''0.92'')" "map_of out ''bid_price'' = None"
    by (simp_all add: rate_def)
  have fx: "\<exists>out. normalize_fx_rate_keys
            (JObj [(''Realtime Currency Exchange Rate'',
                    JObj [(''5. Exchange Rate'', JStr ''0.92''), (''10. Unknown'', JNull)])]) =
            Inr (JObj out)
        \<and> map_of out ''exchange_rate'' = Some (JStr ''0.92'')
        \<and> map_of out ''bid_price'' = None
        \<and> ''10. Unknown'' \<notin> set (map fst out)"
    using o v' u unfolding d_def rate_def by (intro exI [of _ out] conjI)
  from t [THEN conjunct2, THEN conjunct2, rule_format, OF sample_crypto_run]
  obtain flds where "JObj [(''symbol'', JStr ''BTC''), (''name'', JStr ''Bitcoin''), (''market'', JStr ''USD''),
                (''market_name'', JStr []), (''last_refreshed'', JStr []), (''time_zone'', JStr []),
                (''current_quote'',
                   JObj [(''date'', JStr ''2024-01-03''), (''open'', JStr []), (''high'', JStr []),
                         (''low'', JStr []), (''close'', JStr ''44000.0''), (''volume'', JStr [])])] = JObj flds"
    and "map fst flds = [''symbol'', ''name'', ''market'', ''market_name'', ''last_refreshed'',
                          ''time_zone'', ''current_quote'']"
    by (elim exE conjE)
  then have cr: "\<exists>flds. normalize_crypto_quote (\<lambda>s. Inr sample_crypto_payload) ''BTC'' ''USD'' ''{}'' =
                 Inr (JObj flds)
        \<and> map fst flds = [''symbol'', ''name'', ''market'', ''market_name'', ''last_refreshed'',
                          ''time_zone'', ''current_quote'']"
    unfolding sample_crypto_run by (intro exI [of _ flds] conjI) simp_all
  from fx cr show ?thesis by (rule conjI)
qed


text \<open>
  Claim C7 as the specification words it has an absent upstream key absent from the
  output, never a placeholder, and the output keys always drawn from the canonical set.
  \<^verbatim>\<open>normalize_crypto_quote\<close> reads every field with a default: on a payload without
  \<^verbatim>\<open>Meta Data\<close>, whose latest entry has a close only, the record still carries
  \<^verbatim>\<open>name\<close>, \<^verbatim>\<open>market_name\<close>, \<^verbatim>\<open>open\<close> and the others, set to the empty string. And
  \<^verbatim>\<open>normalize_fx_rate_keys\<close> returns a payload without the rate container as it is, with
  its upstream keys.
\<close>

theorem key_normalizers_placeholder_counterexample:
  "normalize_crypto_quote
     (\<lambda>s. Inr (JObj [(''Time Series (Digital Currency Daily)'',
                      JObj [(''2024-01-02'', JObj [(''4. close'', JStr ''43000.0'')])])]))
     ''BTC'' ''USD'' ''{}'' =
     Inr (JObj [(''symbol'', JStr ''BTC''), (''name'', JStr []), (''market'', JStr ''USD''),
                (''market_name'', JStr []), (''last_refreshed'', JStr []), (''time_zone'', JStr []),
                (''current_quote'',
                   JObj [(''date'', JStr ''2024-01-02''), (''open'', JStr []), (''high'', JStr []),
                         (''low'', JStr []), (''close'', JStr ''43000.0''), (''volume'', JStr [])])])
   \<and> normalize_fx_rate_keys (JObj [(''Error Message'', JStr ''Invalid API call'')]) =
     Inr (JObj [(''Error Message'', JStr ''Invalid API call'')])"
  by (simp add: normalize_crypto_quote_def bind_err_def py_get_default_def dict_get_def
      normalize_fx_rate_keys_def has_key_def)

subsection \<open>The analytics router\<close>

lemma has_key_dict_set: "has_key (dict_set d k v) k' \<longleftrightarrow> k' = k \<or> has_key d k'"
  by (simp add: has_key_map_of map_of_dict_set)

lemma echo_metadata_ok:
  assumes "\<forall>m. map_of r ''metadata'' = Some m \<longrightarrow> is_obj m"
  shows "\<exists>out md. echo_metadata r interval series_range ohlc w calculations = Inr (JObj out)
     \<and> (\<forall>k. k \<noteq> ''metadata'' \<longrightarrow> map_of out k = map_of r k)
     \<and> map_of out ''metadata'' = Some (JObj md)
     \<and> map_of md ''interval'' = Some (JStr interval)
     \<and> map_of md ''series_range'' = Some (JStr series_range)
     \<and> map_of md ''ohlc'' = Some (JStr ohlc)
     \<and> map_of md ''window_size'' = Some w
     \<and> map_of md ''calculations'' = Some (str_list calculations)"
proof -
  define r' where "r' = (if has_key r ''metadata'' then r else dict_set r ''metadata'' (JObj []))"
  have "\<exists>md0. map_of r' ''metadata'' = Some (JObj md0)"
  proof (cases "map_of r ''metadata''")
    case None
    then show ?thesis
      by (simp add: r'_def has_key_map_of map_of_dict_set)
  next
    case (Some m)
    with assms have "is_obj m" by simp
    then obtain md0 where "m = JObj md0"
      by (cases m) (simp_all add: is_obj_def)
    with Some show ?thesis
      by (simp add: r'_def has_key_map_of)
  qed
  then obtain md0 where md0: "map_of r' ''metadata'' = Some (JObj md0)" ..
  have other: "map_of r' k = map_of r k" if "k \<noteq> ''metadata''" for k
    using that by (simp add: r'_def map_of_dict_set)
  define md where "md = dict_update md0
                  [(''interval'', JStr interval),
                   (''series_range'', JStr series_range),
                   (''ohlc'', JStr ohlc),
                   (''window_size'', w),
                   (''calculations'', str_list calculations)]"
  define out where "out = dict_set r' ''metadata'' (JObj md)"
  have run: "echo_metadata r interval series_range ohlc w calculations = Inr (JObj out)"
    unfolding echo_metadata_def Let_def r'_def [symmetric] out_def md_def
    using md0 by (simp add: dict_get_def)
  have o1: "\<forall>k. k \<noteq> ''metadata'' \<longrightarrow> map_of out k = map_of r k"
    using other by (simp add: out_def map_of_dict_set)
  have o2: "map_of out ''metadata'' = Some (JObj md)"
    by (simp add: out_def map_of_dict_set)
  have m: "map_of md ''interval'' = Some (JStr interval)"
    "map_of md ''series_range'' = Some (JStr series_range)"
    "map_of md ''ohlc'' = Some (JStr ohlc)"
    "map_of md ''window_size'' = Some w"
    "map_of md ''calculations'' = Some (str_list calculations)"
    by (simp_all add: md_def dict_update_def map_of_dict_set)
  show ?thesis
    using run o1 o2 m by (intro exI [of _ out] exI [of _ md] conjI)
qed

lemma length_placeholder_results:
  "length (placeholder_results symbols calculations) = length symbols * length calculations"
  by (induction symbols) (simp_all add: placeholder_results_def)

lemma analyze_sliding:
  assumes "window_size = Some w" "w \<ge> 10"
  shows "\<exists>c. fst (analyze_stocks ds symbols interval calculations series_range ohlc window_size) = [c]
     \<and> callee c = fetch_analytics_sliding_window
     \<and> (ds c = Inr (JObj r) \<and> (\<forall>m. map_of r ''metadata'' = Some m \<longrightarrow> is_obj m) \<longrightarrow>
          (\<exists>out md.
              snd (analyze_stocks ds symbols interval calculations series_range ohlc window_size) =
                Inr (JObj out)
            \<and> map_of out ''window_type'' = Some (JStr ''sliding'')
            \<and> map_of out ''symbols'' = Some (str_list symbols)
            \<and> map_of out ''results'' =
                Some (case map_of r ''results'' of
                        None \<Rightarrow> JList (placeholder_results symbols calculations)
                      | Some x \<Rightarrow> x)
            \<and> map_of out ''metadata'' = Some (JObj md)
            \<and> map_of md ''interval'' = Some (JStr interval)
            \<and> map_of md ''series_range'' = Some (JStr series_range)
            \<and> map_of md ''ohlc'' = Some (JStr ohlc)
            \<and> map_of md ''calculations'' = Some (str_list calculations)
            \<and> map_of md ''window_size'' = Some (JInt w)))"
proof -
  define c where "c = \<lparr>callee = fetch_analytics_sliding_window, args = [],
            kwargs = [(''symbols'', str_list symbols), (''interval'', JStr interval),
                      (''calculations'', str_list calculations),
                      (''series_range'', JStr series_range), (''ohlc'', JStr ohlc),
                      (''window_size'', opt_int window_size)]\<rparr>"
  have calls: "fst (analyze_stocks ds symbols interval calculations series_range ohlc window_size) = [c]"
    unfolding analyze_stocks_def c_def [symmetric] using assms
    by (simp add: bind_io_lift_fst await_def)
  have cal: "callee c = fetch_analytics_sliding_window"
    by (simp add: c_def)
  have post: "\<exists>out md.
              snd (analyze_stocks ds symbols interval calculations series_range ohlc window_size) =
                Inr (JObj out)
            \<and> map_of out ''window_type'' = Some (JStr ''sliding'')
            \<and> map_of out ''symbols'' = Some (str_list symbols)
            \<and> map_of out ''results'' =
                Some (case map_of r ''results'' of
                        None \<Rightarrow> JList (placeholder_results symbols calculations)
                      | Some x \<Rightarrow> x)
            \<and> map_of out ''metadata'' = Some (JObj md)
            \<and> map_of md ''interval'' = Some (JStr interval)
            \<and> map_of md ''series_range'' = Some (JStr series_range)
            \<and> map_of md ''ohlc'' = Some (JStr ohlc)
            \<and> map_of md ''calculations'' = Some (str_list calculations)
            \<and> map_of md ''window_size'' = Some (JInt w)"
    if a: "ds c = Inr (JObj r)" and b: "\<forall>m. map_of r ''metadata'' = Some m \<longrightarrow> is_obj m"
  proof -
    define r2 where "r2 = dict_set (dict_set r ''window_type'' (JStr ''sliding'')) ''symbols'' (str_list symbols)"
    define r3 where "r3 = (if has_key r2 ''results'' then r2
                            else dict_set r2 ''results''
                                   (JList (placeholder_results symbols calculations)))"
    have run: "snd (analyze_stocks ds symbols interval calculations series_range ohlc window_size) =
        echo_metadata r3 interval series_range ohlc (JInt w) calculations"
      unfolding analyze_stocks_def c_def [symmetric] using assms a
      by (simp add: bind_io_def await_def lift_def r3_def r2_def opt_int_def Let_def)
    have m3: "map_of r3 ''metadata'' = map_of r ''metadata''"
      by (simp add: r3_def r2_def map_of_dict_set)
    have w3: "map_of r3 ''window_type'' = Some (JStr ''sliding'')"
      and s3: "map_of r3 ''symbols'' = Some (str_list symbols)"
      by (simp_all add: r3_def r2_def map_of_dict_set)
    have res3: "map_of r3 ''results'' =
                Some (case map_of r ''results'' of
                        None \<Rightarrow> JList (placeholder_results symbols calculations)
                      | Some x \<Rightarrow> x)"
      by (cases "map_of r ''results''")
         (simp_all add: r3_def r2_def map_of_dict_set has_key_map_of)
    from b m3 have "\<forall>m. map_of r3 ''metadata'' = Some m \<longrightarrow> is_obj m"
      by simp
    from echo_metadata_ok [OF this, of interval series_range ohlc "JInt w" calculations]
    obtain out md where
      e: "echo_metadata r3 interval series_range ohlc (JInt w) calculations = Inr (JObj out)"
      and o: "\<forall>k. k \<noteq> ''metadata'' \<longrightarrow> map_of out k = map_of r3 k"
      and md: "map_of out ''metadata'' = Some (JObj md)"
        "map_of md ''interval'' = Some (JStr interval)"
        "map_of md ''series_range'' = Some (JStr series_range)"
        "map_of md ''ohlc'' = Some (JStr ohlc)"
        "map_of md ''window_size'' = Some (JInt w)"
        "map_of md ''calculations'' = Some (str_list calculations)"
      by (elim exE conjE)
    have k: "map_of out ''window_type'' = map_of r3 ''window_type''"
      "map_of out ''symbols'' = map_of r3 ''symbols''"
      "map_of out ''results'' = map_of r3 ''results''"
      using o by simp_all
    show ?thesis
      using run e k w3 s3 res3 md
      by (intro exI [of _ out] exI [of _ md] conjI) simp_all
  qed
  show ?thesis
    using calls cal post by (intro exI [of _ c] conjI impI) simp_all
qed

lemma analyze_fixed:
  assumes "window_size = None \<or> (\<exists>w. window_size = Some w \<and> w < 10)"
  shows "\<exists>c. fst (analyze_stocks ds symbols interval calculations series_range ohlc window_size) = [c]
     \<and> callee c = fetch_analytics_fixed_window
     \<and> (ds c = Inr (JObj r) \<and> (\<forall>m. map_of r ''metadata'' = Some m \<longrightarrow> is_obj m) \<longrightarrow>
          (\<exists>out md.
              snd (analyze_stocks ds symbols interval calculations series_range ohlc window_size) =
                Inr (JObj out)
            \<and> map_of out ''window_type'' = Some (JStr ''fixed'')
            \<and> map_of out ''symbols'' = Some (str_list symbols)
            \<and> map_of out ''results'' =
                Some (case map_of r ''results'' of
                        None \<Rightarrow> JList (placeholder_results symbols calculations)
                      | Some x \<Rightarrow> x)
            \<and> map_of out ''metadata'' = Some (JObj md)
            \<and> map_of md ''interval'' = Some (JStr interval)
            \<and> map_of md ''series_range'' = Some (JStr series_range)
            \<and> map_of md ''ohlc'' = Some (JStr ohlc)
            \<and> map_of md ''calculations'' = Some (str_list calculations)
            \<and> map_of md ''window_size'' = Some JNull))"
proof -
  define c where "c = \<lparr>callee = fetch_analytics_fixed_window, args = [],
            kwargs = [(''symbols'', str_list symbols), (''interval'', JStr interval),
                      (''calculations'', str_list calculations),
                      (''series_range'', JStr series_range), (''ohlc'', JStr ohlc)]\<rparr>"
  have cond: "\<not> (case window_size of None \<Rightarrow> False | Some w \<Rightarrow> w \<ge> 10)"
    using assms by auto
  have calls: "fst (analyze_stocks ds symbols interval calculations series_range ohlc window_size) = [c]"
    unfolding analyze_stocks_def c_def [symmetric] using cond
    by (simp add: bind_io_lift_fst await_def)
  have cal: "callee c = fetch_analytics_fixed_window"
    by (simp add: c_def)
  have post: "\<exists>out md.
              snd (analyze_stocks ds symbols interval calculations series_range ohlc window_size) =
                Inr (JObj out)
            \<and> map_of out ''window_type'' = Some (JStr ''fixed'')
            \<and> map_of out ''symbols'' = Some (str_list symbols)
            \<and> map_of out ''results'' =
                Some (case map_of r ''results'' of
                        None \<Rightarrow> JList (placeholder_results symbols calculations)
                      | Some x \<Rightarrow> x)
            \<and> map_of out ''metadata'' = Some (JObj md)
            \<and> map_of md ''interval'' = Some (JStr interval)
            \<and> map_of md ''series_range'' = Some (JStr series_range)
            \<and> map_of md ''ohlc'' = Some (JStr ohlc)
            \<and> map_of md ''calculations'' = Some (str_list calculations)
            \<and> map_of md ''window_size'' = Some JNull"
    if a: "ds c = Inr (JObj r)" and b: "\<forall>m. map_of r ''metadata'' = Some m \<longrightarrow> is_obj m"
  proof -
    define r1 where "r1 = dict_set (dict_set r ''window_type'' (JStr ''fixed'')) ''symbols'' (str_list symbols)"
    define r2 where "r2 = (if has_key r1 ''data_format'' then r1
                            else dict_set r1 ''data_format'' (JStr ''json''))"
    define r3 where "r3 = (if has_key r2 ''results'' then r2
                            else dict_set r2 ''results''
                                   (JList (placeholder_results symbols calculations)))"
    have run: "snd (analyze_stocks ds symbols interval calculations series_range ohlc window_size) =
        echo_metadata r3 interval series_range ohlc JNull calculations"
      unfolding analyze_stocks_def c_def [symmetric] using cond a
      by (simp add: bind_io_def await_def lift_def r3_def r2_def r1_def Let_def)
    have m3: "map_of r3 ''metadata'' = map_of r ''metadata''"
      by (simp add: r3_def r2_def r1_def map_of_dict_set)
    have w3: "map_of r3 ''window_type'' = Some (JStr ''fixed'')"
      and s3: "map_of r3 ''symbols'' = Some (str_list symbols)"
      by (simp_all add: r3_def r2_def r1_def map_of_dict_set)
    have res3: "map_of r3 ''results'' =
                Some (case map_of r ''results'' of
                        None \<Rightarrow> JList (placeholder_results symbols calculations)
                      | Some x \<Rightarrow> x)"
      by (cases "map_of r ''results''")
         (simp_all add: r3_def r2_def r1_def map_of_dict_set has_key_map_of)
    from b m3 have "\<forall>m. map_of r3 ''metadata'' = Some m \<longrightarrow> is_obj m"
      by simp
    from echo_metadata_ok [OF this, of interval series_range ohlc JNull calculations]
    obtain out md where
      e: "echo_metadata r3 interval series_range ohlc JNull calculations = Inr (JObj out)"
      and o: "\<forall>k. k \<noteq> ''metadata'' \<longrightarrow> map_of out k = map_of r3 k"
      and md: "map_of out ''metadata'' = Some (JObj md)"
        "map_of md ''interval'' = Some (JStr interval)"
        "map_of md ''series_range'' = Some (JStr series_range)"
        "map_of md ''ohlc'' = Some (JStr ohlc)"
        "map_of md ''window_size'' = Some JNull"
        "map_of md ''calculations'' = Some (str_list calculations)"
      by (elim exE conjE)
    have k: "map_of out ''window_type'' = map_of r3 ''window_type''"
      "map_of out ''symbols'' = map_of r3 ''symbols''"
      "map_of out ''results'' = map_of r3 ''results''"
      using o by simp_all
    show ?thesis
      using run e k w3 s3 res3 md
      by (intro exI [of _ out] exI [of _ md] conjI) simp_all
  qed
  show ?thesis
    using calls cal post by (intro exI [of _ c] conjI impI) simp_all
qed


text \<open>
  Claim C2, amended. With a window size present and at least 10, \<^verbatim>\<open>analyze_stocks\<close> issues
  exactly one call, to the sliding-window operation; with the window size absent or below
  10, exactly one call, to the fixed-window operation. When the Data Source's result is a
  mapping whose \<^verbatim>\<open>metadata\<close> entry, if any, is a mapping, the returned mapping has
  \<^verbatim>\<open>window_type\<close> backfilled, \<^verbatim>\<open>symbols\<close> echoed at the top level, a \<^verbatim>\<open>results\<close> entry (the
  Data Source's own when it gave one, otherwise the placeholder list, which has one row
  per symbol and calculation and so is empty when either list is) and a \<^verbatim>\<open>metadata\<close>
  block echoing interval, series range, ohlc and calculations; its \<^verbatim>\<open>window_size\<close> is the
  input on the sliding path and null on the fixed path.
\<close>

theorem analyze_stocks_routing:
  "(window_size = Some w \<and> w \<ge> 10 \<longrightarrow>
     (\<exists>c. fst (analyze_stocks ds symbols interval calculations series_range ohlc window_size) = [c]
       \<and> callee c = fetch_analytics_sliding_window
       \<and> (ds c = Inr (JObj r) \<and> (\<forall>m. map_of r ''metadata'' = Some m \<longrightarrow> is_obj m) \<longrightarrow>
            (\<exists>out md.
                snd (analyze_stocks ds symbols interval calculations series_range ohlc window_size) =
                  Inr (JObj out)
              \<and> map_of out ''window_type'' = Some (JStr ''sliding'')
              \<and> map_of out ''symbols'' = Some (str_list symbols)
              \<and> map_of out ''results'' =
                  Some (case map_of r ''results'' of
                          None \<Rightarrow> JList (placeholder_results symbols calculations)
                        | Some x \<Rightarrow> x)
              \<and> map_of out ''metadata'' = Some (JObj md)
              \<and> map_of md ''interval'' = Some (JStr interval)
              \<and> map_of md ''series_range'' = Some (JStr series_range)
              \<and> map_of md ''ohlc'' = Some (JStr ohlc)
              \<and> map_of md ''calculations'' = Some (str_list calculations)
              \<and> map_of md ''window_size'' = Some (JInt w)))))
 \<and> (window_size = None \<or> (\<exists>w. window_size = Some w \<and> w < 10) \<longrightarrow>
     (\<exists>c. fst (analyze_stocks ds symbols interval calculations series_range ohlc window_size) = [c]
       \<and> callee c = fetch_analytics_fixed_window
       \<and> (ds c = Inr (JObj r) \<and> (\<forall>m. map_of r ''metadata'' = Some m \<longrightarrow> is_obj m) \<longrightarrow>
            (\<exists>out md.
                snd (analyze_stocks ds symbols interval calculations series_range ohlc window_size) =
                  Inr (JObj out)
              \<and> map_of out ''window_type'' = Some (JStr ''fixed'')
              \<and> map_of out ''symbols'' = Some (str_list symbols)
              \<and> map_of out ''results'' =
                  Some (case map_of r ''results'' of
                          None \<Rightarrow> JList (placeholder_results symbols calculations)
                        | Some x \<Rightarrow> x)
              \<and> map_of out ''metadata'' = Some (JObj md)
              \<and> map_of md ''interval'' = Some (JStr interval)
              \<and> map_of md ''series_range'' = Some (JStr series_range)
              \<and> map_of md ''ohlc'' = Some (JStr ohlc)
              \<and> map_of md ''calculations'' = Some (str_list calculations)
              \<and> map_of md ''window_size'' = Some JNull))))
 \<and> length (placeholder_results symbols calculations) = length symbols * length calculations"
proof (intro conjI impI)
  assume "window_size = Some w \<and> w \<ge> 10"
  then have a: "window_size = Some w" and b: "w \<ge> 10" by simp_all
  show "\<exists>c. fst (analyze_stocks ds symbols interval calculations series_range ohlc window_size) = [c]
       \<and> callee c = fetch_analytics_sliding_window
       \<and> (ds c = Inr (JObj r) \<and> (\<forall>m. map_of r ''metadata'' = Some m \<longrightarrow> is_obj m) \<longrightarrow>
            (\<exists>out md.
                snd (analyze_stocks ds symbols interval calculations series_range ohlc window_size) =
                  Inr (JObj out)
              \<and> map_of out ''window_type'' = Some (JStr ''sliding'')
              \<and> map_of out ''symbols'' = Some (str_list symbols)
              \<and> map_of out ''results'' =
                  Some (case map_of r ''results'' of
                          None \<Rightarrow> JList (placeholder_results symbols calculations)
                        | Some x \<Rightarrow> x)
              \<and> map_of out ''metadata'' = Some (JObj md)
              \<and> map_of md ''interval'' = Some (JStr interval)
              \<and> map_of md ''series_range'' = Some (JStr series_range)
              \<and> map_of md ''ohlc'' = Some (JStr ohlc)
              \<and> map_of md ''calculations'' = Some (str_list calculations)
              \<and> map_of md ''window_size'' = Some (JInt w)))"
    by (rule analyze_sliding [OF a b])
next
  assume "window_size = None \<or> (\<exists>w. window_size = Some w \<and> w < 10)"
  then show "\<exists>c. fst (analyze_stocks ds symbols interval calculations series_range ohlc window_size) = [c]
       \<and> callee c = fetch_analytics_fixed_window
       \<and> (ds c = Inr (JObj r) \<and> (\<forall>m. map_of r ''metadata'' = Some m \<longrightarrow> is_obj m) \<longrightarrow>
            (\<exists>out md.
                snd (analyze_stocks ds symbols interval calculations series_range ohlc window_size) =
                  Inr (JObj out)
              \<and> map_of out ''window_type'' = Some (JStr ''fixed'')
              \<and> map_of out ''symbols'' = Some (str_list symbols)
              \<and> map_of out ''results'' =
                  Some (case map_of r ''results'' of
                          None \<Rightarrow> JList (placeholder_results symbols calculations)
                        | Some x \<Rightarrow> x)
              \<and> map_of out ''metadata'' = Some (JObj md)
              \<and> map_of md ''interval'' = Some (JStr interval)
              \<and> map_of md ''series_range'' = Some (JStr series_range)
              \<and> map_of md ''ohlc'' = Some (JStr ohlc)
              \<and> map_of md ''calculations'' = Some (str_list calculations)
              \<and> map_of md ''window_size'' = Some JNull))"
    by (rule analyze_fixed)
next
  show "length (placeholder_results symbols calculations) = length symbols * length calculations"
    by (rule length_placeholder_results)
qed

theorem analyze_stocks_routing_witness:
  "(\<exists>c out md.
       fst (analyze_stocks (\<lambda>c. Inr (JObj [])) [''IBM''] ''DAILY'' [''MEAN''] ''1month'' ''close''
              (Some 20)) = [c]
     \<and> callee c = fetch_analytics_sliding_window
     \<and> snd (analyze_stocks (\<lambda>c. Inr (JObj [])) [''IBM''] ''DAILY'' [''MEAN''] ''1month'' ''close''
              (Some 20)) = Inr (JObj out)
     \<and> map_of out ''window_type'' = Some (JStr ''sliding'')
     \<and> map_of out ''results'' = Some (JList (placeholder_results [''IBM''] [''MEAN'']))
     \<and> map_of out ''metadata'' = Some (JObj md)
     \<and> map_of md ''window_size'' = Some (JInt 20))
   \<and> (\<exists>c out md.
       fst (analyze_stocks (\<lambda>c. Inr (JObj [])) [''IBM''] ''DAILY'' [''MEAN''] ''1month'' ''close''
              None) = [c]
     \<and> callee c = fetch_analytics_fixed_window
     \<and> snd (analyze_stocks (\<lambda>c. Inr (JObj [])) [''IBM''] ''DAILY'' [''MEAN''] ''1month'' ''close''
              None) = Inr (JObj out)
     \<and> map_of out ''window_type'' = Some (JStr ''fixed'')
     \<and> map_of out ''metadata'' = Some (JObj md)
     \<and> map_of md ''window_size'' = Some JNull)"
proof -
  have shape: "(\<lambda>c. Inr (JObj [])) c = (Inr (JObj []) :: error + json)
      \<and> (\<forall>m. map_of ([] :: (string \<times> json) list) ''metadata'' = Some m \<longrightarrow> is_obj m)" for c :: call
    by simp
  note s = analyze_stocks_routing [where window_size = "Some 20" and w = 20
      and ds = "\<lambda>c. Inr (JObj [])" and r = "[]" and symbols = "[''IBM'']" and interval = "''DAILY''"
      and calculations = "[''MEAN'']" and series_range = "''1month''" and ohlc = "''close''",
      THEN conjunct1, rule_format]
  note f = analyze_stocks_routing [where window_size = None
      and ds = "\<lambda>c. Inr (JObj [])" and r = "[]" and symbols = "[''IBM'']" and interval = "''DAILY''"
      and calculations = "[''MEAN'']" and series_range = "''1month''" and ohlc = "''close''",
      THEN conjunct2, THEN conjunct1, rule_format]
  have "Some (20::int) = Some 20 \<and> (10::int) \<le> 20" by simp
  from s [OF this] obtain c where
    c: "fst (analyze_stocks (\<lambda>c. Inr (JObj [])) [''IBM''] ''DAILY'' [''MEAN''] ''1month'' ''close''
              (Some 20)) = [c]"
    and cc: "callee c = fetch_analytics_sliding_window"
    and post: "(\<lambda>c. Inr (JObj [])) c = (Inr (JObj []) :: error + json)
      \<and> (\<forall>m. map_of ([] :: (string \<times> json) list) ''metadata'' = Some m \<longrightarrow> is_obj m) \<longrightarrow>
          (\<exists>out md.
                snd (analyze_stocks (\<lambda>c. Inr (JObj [])) [''IBM''] ''DAILY'' [''MEAN''] ''1month'' ''close''
              (Some 20)) = Inr (JObj out)
              \<and> map_of out ''window_type'' = Some (JStr ''sliding'')
              \<and> map_of out ''symbols'' = Some (str_list [''IBM''])
              \<and> map_of out ''results'' =
                  Some (case map_of ([] :: (string \<times> json) list) ''results'' of
                          None \<Rightarrow> JList (placeholder_results [''IBM''] [''MEAN''])
                        | Some x \<Rightarrow> x)
              \<and> map_of out ''metadata'' = Some (JObj md)
              \<and> map_of md ''interval'' = Some (JStr ''DAILY'')
              \<and> map_of md ''series_range'' = Some (JStr ''1month'')
              \<and> map_of md ''ohlc'' = Some (JStr ''close'')
              \<and> map_of md ''calculations'' = Some (str_list [''MEAN''])
              \<and> map_of md ''window_size'' = Some (JInt 20))"
    by (elim exE conjE)
  from post [rule_format, OF shape] obtain out md where
    o: "snd (analyze_stocks (\<lambda>c. Inr (JObj [])) [''IBM''] ''DAILY'' [''MEAN''] ''1month'' ''close''
              (Some 20)) = Inr (JObj out)"
    "map_of out ''window_type'' = Some (JStr ''sliding'')"
    "map_of out ''results'' =
                  Some (case map_of ([] :: (string \<times> json) list) ''results'' of
                          None \<Rightarrow> JList (placeholder_results [''IBM''] [''MEAN''])
                        | Some x \<Rightarrow> x)"
    "map_of out ''metadata'' = Some (JObj md)"
    "map_of md ''window_size'' = Some (JInt 20)"
    by (elim exE conjE)
  have A: "\<exists>c out md.
       fst (analyze_stocks (\<lambda>c. Inr (JObj [])) [''IBM''] ''DAILY'' [''MEAN''] ''1month'' ''close''
              (Some 20)) = [c]
     \<and> callee c = fetch_analytics_sliding_window
     \<and> snd (analyze_stocks (\<lambda>c. Inr (JObj [])) [''IBM''] ''DAILY'' [''MEAN''] ''1month'' ''close''
              (Some 20)) = Inr (JObj out)
     \<and> map_of out ''window_type'' = Some (JStr ''sliding'')
     \<and> map_of out ''results'' = Some (JList (placeholder_results [''IBM''] [''MEAN'']))
     \<and> map_of out ''metadata'' = Some (JObj md)
     \<and> map_of md ''window_size'' = Some (JInt 20)"
    using c cc o by (intro exI [of _ c] exI [of _ out] exI [of _ md] conjI) simp_all
  have "(None :: int option) = None \<or> (\<exists>w. (None :: int option) = Some w \<and> w < 10)" by simp
  from f [OF this] obtain c' where
    c': "fst (analyze_stocks (\<lambda>c. Inr (JObj [])) [''IBM''] ''DAILY'' [''MEAN''] ''1month'' ''close''
              None) = [c']"
    and cc': "callee c' = fetch_analytics_fixed_window"
    and post': "(\<lambda>c. Inr (JObj [])) c' = (Inr (JObj []) :: error + json)
      \<and> (\<forall>m. map_of ([] :: (string \<times> json) list) ''metadata'' = Some m \<longrightarrow> is_obj m) \<longrightarrow>
          (\<exists>out md.
                snd (analyze_stocks (\<lambda>c. Inr (JObj [])) [''IBM''] ''DAILY'' [''MEAN''] ''1month'' ''close''
              None) = Inr (JObj out)
              \<and> map_of out ''window_type'' = Some (JStr ''fixed'')
              \<and> map_of out ''symbols'' = Some (str_list [''IBM''])
              \<and> map_of out ''results'' =
                  Some (case map_of ([] :: (string \<times> json) list) ''results'' of
                          None \<Rightarrow> JList (placeholder_results [''IBM''] [''MEAN''])
                        | Some x \<Rightarrow> x)
              \<and> map_of out ''metadata'' = Some (JObj md)
              \<and> map_of md ''interval'' = Some (JStr ''DAILY'')
              \<and> map_of md ''series_range'' = Some (JStr ''1month'')
              \<and> map_of md ''ohlc'' = Some (JStr ''close'')
              \<and> map_of md ''calculations'' = Some (str_list [''MEAN''])
              \<and> map_of md ''window_size'' = Some JNull)"
    by (elim exE conjE)
  from post' [rule_format, OF shape] obtain out' md' where
    o': "snd (analyze_stocks (\<lambda>c. Inr (JObj [])) [''IBM''] ''DAILY'' [''MEAN''] ''1month'' ''close''
              None) = Inr (JObj out')"
    "map_of out' ''window_type'' = Some (JStr ''fixed'')"
    "map_of out' ''metadata'' = Some (JObj md')"
    "map_of md' ''window_size'' = Some JNull"
    by (elim exE conjE)
  have B: "\<exists>c out md.
       fst (analyze_stocks (\<lambda>c. Inr (JObj [])) [''IBM''] ''DAILY'' [''MEAN''] ''1month'' ''close''
              None) = [c]
     \<and> callee c = fetch_analytics_fixed_window
     \<and> snd (analyze_stocks (\<lambda>c. Inr (JObj [])) [''IBM''] ''DAILY'' [''MEAN''] ''1month'' ''close''
              None) = Inr (JObj out)
     \<and> map_of out ''window_type'' = Some (JStr ''fixed'')
     \<and> map_of out ''metadata'' = Some (JObj md)
     \<and> map_of md ''window_size'' = Some JNull"
    using c' cc' o' by (intro exI [of _ c'] exI [of _ out'] exI [of _ md'] conjI)
  from A B show ?thesis by (rule conjI)
qed

text \<open>
  Claim C2 as the specification words it has the result always carry a non-empty
  \<^verbatim>\<open>results\<close> array and a metadata block echoing all input parameters. With a window size
  of 5 the fixed-window branch writes \<^verbatim>\<open>"window_size": None\<close> into the metadata (the input
  is 5) and the symbols are echoed outside it; and with an empty list of symbols the
  placeholder \<^verbatim>\<open>results\<close> is the empty array.
\<close>

theorem analyze_stocks_echo_counterexample:
  "snd (analyze_stocks (\<lambda>c. Inr (JObj [])) [''IBM''] ''DAILY'' [''MEAN''] ''1month'' ''close'' (Some 5)) =
     Inr (JObj
       [(''window_type'', JStr ''fixed''),
        (''symbols'', JList [JStr ''IBM'']),
        (''data_format'', JStr ''json''),
        (''results'', JList [JObj [(''symbol'', JStr ''IBM''), (''calculation'', JStr ''MEAN''),
                                    (''value'', JFloat ''0.0''), (''date'', JStr ''2024-01-01'')]]),
        (''metadata'', JObj [(''interval'', JStr ''DAILY''), (''series_range'', JStr ''1month''),
                             (''ohlc'', JStr ''close''), (''window_size'', JNull),
                             (''calculations'', JList [JStr ''MEAN''])])])
   \<and> snd (analyze_stocks (\<lambda>c. Inr (JObj [])) [] ''DAILY'' [''MEAN''] ''1month'' ''close'' (Some 20)) =
     Inr (JObj
       [(''window_type'', JStr ''sliding''),
        (''symbols'', JList []),
        (''results'', JList []),
        (''metadata'', JObj [(''interval'', JStr ''DAILY''), (''series_range'', JStr ''1month''),
                             (''ohlc'', JStr ''close''), (''window_size'', JInt 20),
                             (''calculations'', JList [JStr ''MEAN''])])])"
  by (simp add: analyze_stocks_def bind_io_def await_def lift_def echo_metadata_def has_key_def
      dict_get_def dict_update_def placeholder_results_def str_list_def opt_int_def)

end
